theory Spec2Isabelle
  imports Complex_Main "HOL-Library.Log_Nat"
begin

section \<open>JavaScript numbers\<close>

text \<open>
  The scoring code computes with JavaScript numbers (IEEE 754 binary64). A number is
  modelled as a rational (the finite doubles), the two infinities or NaN. Signed zeros are
  not distinguished: the code never divides by a computed zero, and comparison treats both
  zeros alike.
\<close>

datatype jsnum = Fin rat | PInf | NInf | NaN

text \<open>
  \<open>fl\<close> rounds a rational to the nearest number with a 53-bit significand, ties to the
  even significand: the rounding that every arithmetic operation of binary64 applies to
  its exact result. The exponent is not bounded: overflow and gradual underflow are left
  out, which changes no result below, since counts stay far under \<open>2 ^ 1023\<close> and a
  quotient in the subnormal range is rounded to zero by \<open>Math.round\<close> in either case.
\<close>

definition pow2 :: "int \<Rightarrow> rat" where
  "pow2 k = (if 0 \<le> k then 2 ^ nat k else 1 / 2 ^ nat (- k))"

definition ilog2 :: "rat \<Rightarrow> int" where
  \<comment> \<open>for \<open>0 < x\<close>: the exponent \<open>e\<close> with \<open>2 ^ e \<le> x < 2 ^ (e + 1)\<close>\<close>
  "ilog2 x = (if 1 \<le> x then bitlen \<lfloor>x\<rfloor> - 1 else - bitlen (\<lceil>1 / x\<rceil> - 1))"

definition round_even :: "rat \<Rightarrow> int" where
  "round_even x = (let f = \<lfloor>x\<rfloor>; r = x - of_int f
     in if r < 1 / 2 then f else if 1 / 2 < r then f + 1
        else if even f then f else f + 1)"

definition fl :: "rat \<Rightarrow> rat" where
  "fl x = (if x = 0 then 0
     else let u = pow2 (ilog2 \<bar>x\<bar> - 52)
          in sgn x * of_int (round_even (\<bar>x\<bar> / u)) * u)"

fun js_neg :: "jsnum \<Rightarrow> jsnum" where
  "js_neg (Fin x) = Fin (- x)"
| "js_neg PInf = NInf"
| "js_neg NInf = PInf"
| "js_neg NaN = NaN"

fun js_add :: "jsnum \<Rightarrow> jsnum \<Rightarrow> jsnum" where
  "js_add (Fin x) (Fin y) = Fin (fl (x + y))"
| "js_add NaN b = NaN"
| "js_add a NaN = NaN"
| "js_add PInf NInf = NaN"
| "js_add NInf PInf = NaN"
| "js_add PInf b = PInf"
| "js_add NInf b = NInf"
| "js_add (Fin x) b = b"

definition js_sub :: "jsnum \<Rightarrow> jsnum \<Rightarrow> jsnum" where
  "js_sub a b = js_add a (js_neg b)"

fun js_mul :: "jsnum \<Rightarrow> jsnum \<Rightarrow> jsnum" where
  "js_mul (Fin x) (Fin y) = Fin (fl (x * y))"
| "js_mul NaN b = NaN"
| "js_mul a NaN = NaN"
| "js_mul (Fin x) b = (if x = 0 then NaN else if 0 < x then b else js_neg b)"
| "js_mul a (Fin y) = (if y = 0 then NaN else if 0 < y then a else js_neg a)"
| "js_mul PInf b = b"
| "js_mul NInf b = js_neg b"

text \<open>
  \<open>counts.X / questionCounts.D\<close>: the numerator is a tally and the denominator a number of
  questions, both non-negative integers. Dividing by zero does not raise in JavaScript:
  \<open>0 / 0\<close> is NaN and \<open>c / 0\<close> is Infinity for \<open>c > 0\<close>.
\<close>

definition js_div_count :: "nat \<Rightarrow> nat \<Rightarrow> jsnum" where
  "js_div_count c q =
     (if q = 0 then (if c = 0 then NaN else PInf)
      else Fin (fl (of_nat c / of_nat q)))"

text \<open>\<open>Math.round\<close>: the nearest integer, a tie going to the larger one.\<close>

fun Math_round :: "jsnum \<Rightarrow> jsnum" where
  "Math_round (Fin x) = Fin (of_int \<lfloor>x + 1 / 2\<rfloor>)"
| "Math_round a = a"

fun Math_abs :: "jsnum \<Rightarrow> jsnum" where
  "Math_abs (Fin x) = Fin \<bar>x\<bar>"
| "Math_abs NInf = PInf"
| "Math_abs a = a"

text \<open>Comparisons: every comparison with NaN is false.\<close>

fun js_lt :: "jsnum \<Rightarrow> jsnum \<Rightarrow> bool" where
  "js_lt (Fin x) (Fin y) = (x < y)"
| "js_lt NaN b = False"
| "js_lt a NaN = False"
| "js_lt a NInf = False"
| "js_lt NInf b = True"
| "js_lt PInf b = False"
| "js_lt (Fin x) PInf = True"

definition js_gt :: "jsnum \<Rightarrow> jsnum \<Rightarrow> bool" where
  "js_gt a b = js_lt b a"

definition js_ge :: "jsnum \<Rightarrow> jsnum \<Rightarrow> bool" where
  "js_ge a b = (a \<noteq> NaN \<and> b \<noteq> NaN \<and> \<not> js_lt a b)"

definition js_eq :: "jsnum \<Rightarrow> jsnum \<Rightarrow> bool" where
  "js_eq a b = (a \<noteq> NaN \<and> a = b)"

section \<open>Assessment.calculateResult\<close>

text \<open>
  The tallies \<open>counts\<close>, the denominators \<open>questionCounts\<close> (numbers of questions per
  dimension, as \<open>getQuestionCounts\<close> and the assessment page compute them) and the result
  object.
\<close>

record letter_counts =
  E :: nat
  I :: nat
  S :: nat
  N :: nat
  T :: nat
  F :: nat
  J :: nat
  P :: nat

record question_counts =
  EI :: nat
  SN :: nat
  TF :: nat
  JP :: nat

record trait_scores =
  extrovert :: jsnum
  introvert :: jsnum
  sensory :: jsnum
  intuitive :: jsnum
  thinking :: jsnum
  feeling :: jsnum
  judging :: jsnum
  perceiving :: jsnum

record calc_result =
  scores :: trait_scores
  personalityType :: string
  alternativeType1 :: "string option"
  alternativeType2 :: "string option"

text \<open>
  Errors: a JavaScript \<open>Error\<close> with its message, and the library's validation error
  with the paths of the document that failed their validators.
\<close>

datatype js_error = Error string | ValidationError "string list"

definition initial_counts :: letter_counts where
  "initial_counts = \<lparr>E = 0, I = 0, S = 0, N = 0, T = 0, F = 0, J = 0, P = 0\<rparr>"

text \<open>
  The body of the \<open>forEach\<close> callback: \<open>if (value in counts) counts[value]++\<close>. For the
  eight own keys the tally of that key grows by one. Any other string either fails the
  \<open>in\<close> test or names a property inherited from \<open>Object.prototype\<close>, and then the increment
  writes a property of that name, which nothing reads: the eight tallies are unchanged.
\<close>

definition count_answer :: "letter_counts \<Rightarrow> string \<Rightarrow> letter_counts" where
  "count_answer counts v =
     (if v = ''E'' then counts\<lparr>E := E counts + 1\<rparr>
      else if v = ''I'' then counts\<lparr>I := I counts + 1\<rparr>
      else if v = ''S'' then counts\<lparr>S := S counts + 1\<rparr>
      else if v = ''N'' then counts\<lparr>N := N counts + 1\<rparr>
      else if v = ''T'' then counts\<lparr>T := T counts + 1\<rparr>
      else if v = ''F'' then counts\<lparr>F := F counts + 1\<rparr>
      else if v = ''J'' then counts\<lparr>J := J counts + 1\<rparr>
      else if v = ''P'' then counts\<lparr>P := P counts + 1\<rparr>
      else counts)"

text \<open>\<open>Math.round((counts.X / questionCounts.D) * 100)\<close>\<close>

definition percentage :: "nat \<Rightarrow> nat \<Rightarrow> jsnum" where
  "percentage c q = Math_round (js_mul (js_div_count c q) (Fin 100))"

text \<open>
  Array reads and writes as JavaScript has them: a read past the end is \<open>undefined\<close>
  (\<open>None\<close>); a write past the end of an array of one-character strings leaves holes, which
  \<open>join('')\<close> prints as nothing, so that the joined string is the old letters followed by
  the new one.
\<close>

definition array_get :: "'a list \<Rightarrow> nat \<Rightarrow> 'a option" where
  "array_get xs i = (if i < length xs then Some (xs ! i) else None)"

definition array_set_join :: "string \<Rightarrow> nat \<Rightarrow> char \<Rightarrow> string" where
  "array_set_join xs i v = (if i < length xs then xs[i := v] else xs @ [v])"

text \<open>\<open>x || null\<close> on a string or \<open>undefined\<close>: the empty string is falsy.\<close>

definition or_null :: "string option \<Rightarrow> string option" where
  "or_null x = (case x of None \<Rightarrow> None | Some s \<Rightarrow> if s = [] then None else Some s)"

record dimension =
  pair :: "(trait_scores \<Rightarrow> jsnum) \<times> (trait_scores \<Rightarrow> jsnum)"
  letters :: string
  index :: nat

definition dimensions :: "dimension list" where
  "dimensions =
     [\<lparr>pair = (extrovert, introvert), letters = ''EI'', index = 0\<rparr>,
      \<lparr>pair = (sensory, intuitive), letters = ''SN'', index = 1\<rparr>,
      \<lparr>pair = (thinking, feeling), letters = ''TF'', index = 2\<rparr>,
      \<lparr>pair = (judging, perceiving), letters = ''JP'', index = 3\<rparr>]"

definition closeThreshold :: rat where
  "closeThreshold = 20"

definition is_close :: "rat \<Rightarrow> trait_scores \<Rightarrow> dimension \<Rightarrow> bool" where
  \<comment> \<open>the \<open>filter\<close> callback of \<open>getAlternativeTypes\<close>\<close>
  "is_close threshold sc d =
     (case pair d of (trait1, trait2) \<Rightarrow>
        let diff = Math_abs (js_sub (trait1 sc) (trait2 sc))
        in js_lt diff (Fin threshold))"

definition flip_dimension :: "string \<Rightarrow> string list \<Rightarrow> dimension \<Rightarrow> string list" where
  \<comment> \<open>the \<open>forEach\<close> callback of \<open>getAlternativeTypes\<close>\<close>
  "flip_dimension primaryType alternatives d =
     (let typeArray = primaryType;
          currentLetter = array_get typeArray (index d);
          alternateLetter = find (\<lambda>l. Some l \<noteq> currentLetter) (letters d)
      in case alternateLetter of
           None \<Rightarrow> alternatives
         | Some l \<Rightarrow> alternatives @ [array_set_join typeArray (index d) l])"

definition getAlternativeTypes :: "trait_scores \<Rightarrow> string \<Rightarrow> string list" where
  "getAlternativeTypes sc primaryType =
     (let closeDimensions = filter (is_close closeThreshold sc) dimensions
      in foldl (flip_dimension primaryType) [] (take 2 closeDimensions))"

definition primary_type :: "trait_scores \<Rightarrow> string" where
  "primary_type sc =
     [if js_ge (extrovert sc) (introvert sc) then CHR ''E'' else CHR ''I'',
      if js_ge (sensory sc) (intuitive sc) then CHR ''S'' else CHR ''N'',
      if js_ge (thinking sc) (feeling sc) then CHR ''T'' else CHR ''F'',
      if js_ge (judging sc) (perceiving sc) then CHR ''J'' else CHR ''P'']"

text \<open>
  \<open>calculateResult\<close> of \<open>src/lib/db/models/Assessment.ts\<close>. Its body has no \<open>throw\<close> and
  no operation that raises on arguments of the declared types, so the result is always
  \<open>Inr\<close>.
\<close>

definition calculateResult :: "string list \<Rightarrow> question_counts \<Rightarrow> js_error + calc_result" where
  "calculateResult answers questionCounts =
     (let counts = foldl count_answer initial_counts answers;
          sc = \<lparr>extrovert = percentage (E counts) (EI questionCounts),
                introvert = percentage (I counts) (EI questionCounts),
                sensory = percentage (S counts) (SN questionCounts),
                intuitive = percentage (N counts) (SN questionCounts),
                thinking = percentage (T counts) (TF questionCounts),
                feeling = percentage (F counts) (TF questionCounts),
                judging = percentage (J counts) (JP questionCounts),
                perceiving = percentage (P counts) (JP questionCounts)\<rparr>;
          ptype = primary_type sc;
          alternatives = getAlternativeTypes sc ptype
      in Inr \<lparr>scores = sc,
              personalityType = ptype,
              alternativeType1 = or_null (array_get alternatives 0),
              alternativeType2 = or_null (array_get alternatives 1)\<rparr>)"

section \<open>The earlier calculateResult with fixed denominators\<close>

text \<open>
  A second version of the model file divides by constants (10 for E and I, 20 for the
  other letters), ignores \<open>questionCounts\<close>, and takes 10 as the closeness threshold.
\<close>

definition closeThreshold_fixed :: rat where
  "closeThreshold_fixed = 10"

definition getAlternativeTypes_fixed :: "trait_scores \<Rightarrow> string \<Rightarrow> string list" where
  "getAlternativeTypes_fixed sc primaryType =
     (let closeDimensions = filter (is_close closeThreshold_fixed sc) dimensions
      in foldl (flip_dimension primaryType) [] (take 2 closeDimensions))"

definition calculateResult_fixed :: "string list \<Rightarrow> question_counts \<Rightarrow> js_error + calc_result" where
  "calculateResult_fixed answers questionCounts =
     (let counts = foldl count_answer initial_counts answers;
          sc = \<lparr>extrovert = percentage (E counts) 10,
                introvert = percentage (I counts) 10,
                sensory = percentage (S counts) 20,
                intuitive = percentage (N counts) 20,
                thinking = percentage (T counts) 20,
                feeling = percentage (F counts) 20,
                judging = percentage (J counts) 20,
                perceiving = percentage (P counts) 20\<rparr>;
          ptype = primary_type sc;
          alternatives = getAlternativeTypes_fixed sc ptype
      in Inr \<lparr>scores = sc,
              personalityType = ptype,
              alternativeType1 = or_null (array_get alternatives 0),
              alternativeType2 = or_null (array_get alternatives 1)\<rparr>)"

section \<open>The Result model\<close>

text \<open>
  \<open>resultData\<close> has the fields of the scoring result, the answers and the time taken; the
  stored document spreads it between \<open>userId\<close>, \<open>assessmentId\<close> and \<open>isActive\<close>. Identifiers
  are abstracted to numbers; the two dates, which the library fills in, are left out.
\<close>

record result_data = calc_result +
  answers :: "string list"
  timeTaken :: "jsnum option"

record result_doc = result_data +
  userId :: nat
  assessmentId :: nat
  isActive :: bool

type_synonym store = "result_doc list"

text \<open>The literal \<open>0.01\<close> denotes the double nearest to one hundredth.\<close>

definition tolerance :: rat where
  "tolerance = fl (1 / 100)"

definition complementary_pairs :: "trait_scores \<Rightarrow> (jsnum \<times> jsnum) list" where
  "complementary_pairs sc =
     [(extrovert sc, introvert sc),
      (sensory sc, intuitive sc),
      (thinking sc, feeling sc),
      (judging sc, perceiving sc)]"

text \<open>The test of the hook's loop: \<open>Math.abs(score1 + score2 - 100) > 0.01\<close>.\<close>

definition off_balance :: "jsnum \<Rightarrow> jsnum \<Rightarrow> bool" where
  "off_balance score1 score2 =
     js_gt (Math_abs (js_sub (js_add score1 score2) (Fin 100))) (Fin tolerance)"

fun check_pairs :: "(jsnum \<times> jsnum) list \<Rightarrow> js_error + unit" where
  "check_pairs [] = Inr ()"
| "check_pairs ((score1, score2) # ps) =
     (if off_balance score1 score2
      then Inl (Error ''Complementary scores must add up to 100'')
      else check_pairs ps)"

definition pre_save :: "result_doc \<Rightarrow> js_error + unit" where
  "pre_save doc = check_pairs (complementary_pairs (scores doc))"

text \<open>
  The validators that the schema declares for a result: \<open>answers\<close> must not be empty,
  every score has \<open>min: 0\<close> and \<open>max: 100\<close>, \<open>personalityType\<close> is required and must
  match \<open>/^[A-Z]{4}$/\<close>, and \<open>timeTaken\<close>, when present, has \<open>min: 0\<close>. A \<open>min\<close> or
  \<open>max\<close> validator is the comparison \<open>v >= min\<close> or \<open>v <= max\<close>, which NaN fails.
\<close>

definition in_range :: "jsnum \<Rightarrow> bool" where
  "in_range v = (js_ge v (Fin 0) \<and> js_ge (Fin 100) v)"

definition matches_type_pattern :: "string \<Rightarrow> bool" where
  "matches_type_pattern p =
     (length p = 4 \<and> list_all (\<lambda>c. c \<in> set ''ABCDEFGHIJKLMNOPQRSTUVWXYZ'') p)"

definition failed_paths :: "result_doc \<Rightarrow> string list" where
  "failed_paths doc =
     (if answers doc = [] then [''answers''] else [])
     @ (if in_range (extrovert (scores doc)) then [] else [''scores.extrovert''])
     @ (if in_range (introvert (scores doc)) then [] else [''scores.introvert''])
     @ (if in_range (sensory (scores doc)) then [] else [''scores.sensory''])
     @ (if in_range (intuitive (scores doc)) then [] else [''scores.intuitive''])
     @ (if in_range (thinking (scores doc)) then [] else [''scores.thinking''])
     @ (if in_range (feeling (scores doc)) then [] else [''scores.feeling''])
     @ (if in_range (judging (scores doc)) then [] else [''scores.judging''])
     @ (if in_range (perceiving (scores doc)) then [] else [''scores.perceiving''])
     @ (if matches_type_pattern (personalityType doc) then [] else [''personalityType''])
     @ (case timeTaken doc of
          None \<Rightarrow> []
        | Some t \<Rightarrow> if js_ge t (Fin 0) then [] else [''timeTaken''])"

definition validate :: "result_doc \<Rightarrow> js_error + unit" where
  "validate doc =
     (if failed_paths doc = [] then Inr () else Inl (ValidationError (failed_paths doc)))"

text \<open>
  \<open>Model.create\<close>: the library casts the document (the parameter \<open>odm\<close>: casting, setters
  and defaults are its own), validates it against the schema, then runs the
  \<open>pre('save')\<close> hook, then inserts. An error at any step rejects the promise and nothing
  is inserted.
\<close>

definition create :: "(result_doc \<Rightarrow> js_error + result_doc) \<Rightarrow> store \<Rightarrow> result_doc
    \<Rightarrow> (js_error + result_doc) \<times> store" where
  "create odm st doc =
     (case odm doc of
        Inl e \<Rightarrow> (Inl e, st)
      | Inr doc' \<Rightarrow>
          (case validate doc' of
             Inl e \<Rightarrow> (Inl e, st)
           | Inr u \<Rightarrow>
               (case pre_save doc' of
                  Inl e \<Rightarrow> (Inl e, st)
                | Inr u' \<Rightarrow> (Inr doc', st @ [doc']))))"

text \<open>\<open>updateMany({ userId, isActive: true }, { $set: { isActive: false } })\<close>\<close>

definition updateMany_inactive :: "nat \<Rightarrow> store \<Rightarrow> store" where
  "updateMany_inactive uid st =
     map (\<lambda>d. if userId d = uid \<and> isActive d then d\<lparr>isActive := False\<rparr> else d) st"

definition createNewResult :: "(result_doc \<Rightarrow> js_error + result_doc) \<Rightarrow> store \<Rightarrow> nat \<Rightarrow> nat
    \<Rightarrow> result_data \<Rightarrow> (js_error + result_doc) \<times> store" where
  "createNewResult odm st uid aid resultData =
     (let st' = updateMany_inactive uid st
      in create odm st'
           \<lparr>scores = scores resultData,
            personalityType = personalityType resultData,
            alternativeType1 = alternativeType1 resultData,
            alternativeType2 = alternativeType2 resultData,
            answers = answers resultData,
            timeTaken = timeTaken resultData,
            userId = uid, assessmentId = aid, isActive = True\<rparr>)"

section \<open>The specification's scoring rules\<close>

text \<open>
  The rules as the specification words them, to be compared with the code: the eight
  recognised letters, rounding half away from zero, the choice of a letter per dimension,
  and the alternatives as single flips of the first two close dimensions.
\<close>

definition recognized :: "string \<Rightarrow> bool" where
  "recognized v = (v \<in> set [''E'', ''I'', ''S'', ''N'', ''T'', ''F'', ''J'', ''P''])"

definition round_half_away :: "rat \<Rightarrow> int" where
  "round_half_away x = (if x < 0 then - \<lfloor>- x + 1 / 2\<rfloor> else \<lfloor>x + 1 / 2\<rfloor>)"

fun js_round_half_away :: "jsnum \<Rightarrow> jsnum" where
  "js_round_half_away (Fin x) = Fin (of_int (round_half_away x))"
| "js_round_half_away a = a"

definition spec_percentage :: "string list \<Rightarrow> string \<Rightarrow> nat \<Rightarrow> jsnum" where
  \<comment> \<open>\<open>round(count(X) / dimensionCounts[dimension] * 100)\<close> in the program's arithmetic\<close>
  "spec_percentage ans letter q =
     js_round_half_away (js_mul (js_div_count (count_list ans letter) q) (Fin 100))"

definition counted_scores :: "string list \<Rightarrow> question_counts \<Rightarrow> trait_scores" where
  \<comment> \<open>the eight percentages from the numbers of occurrences of the letters\<close>
  "counted_scores ans qc =
     \<lparr>extrovert = percentage (count_list ans ''E'') (EI qc),
      introvert = percentage (count_list ans ''I'') (EI qc),
      sensory = percentage (count_list ans ''S'') (SN qc),
      intuitive = percentage (count_list ans ''N'') (SN qc),
      thinking = percentage (count_list ans ''T'') (TF qc),
      feeling = percentage (count_list ans ''F'') (TF qc),
      judging = percentage (count_list ans ''J'') (JP qc),
      perceiving = percentage (count_list ans ''P'') (JP qc)\<rparr>"

definition exact_percentage :: "string list \<Rightarrow> string \<Rightarrow> nat \<Rightarrow> int" where
  \<comment> \<open>the same formula in exact arithmetic, for a positive denominator\<close>
  "exact_percentage ans letter q =
     round_half_away (of_nat (count_list ans letter) / of_nat q * 100)"

definition chosen_letter :: "jsnum \<Rightarrow> jsnum \<Rightarrow> char \<Rightarrow> char \<Rightarrow> char \<Rightarrow> bool" where
  \<comment> \<open>the strictly higher percentage wins, a tie goes to the first letter of the pair\<close>
  "chosen_letter x y first second l =
     ((js_gt x y \<longrightarrow> l = first) \<and> (js_gt y x \<longrightarrow> l = second) \<and> (js_eq x y \<longrightarrow> l = first))"

definition decided :: "jsnum \<Rightarrow> jsnum \<Rightarrow> bool" where
  \<comment> \<open>one percentage is strictly higher, or the two are tied\<close>
  "decided x y = (js_gt x y \<or> js_gt y x \<or> js_eq x y)"

definition sums_to_100 :: "jsnum \<Rightarrow> jsnum \<Rightarrow> bool" where
  \<comment> \<open>two percentages between 0 and 100 whose sum is 100 within the tolerance 0.01 (with
     a margin of \<open>2 ^ -40\<close> for the rounding of the hook's own arithmetic), and exactly 100
     when both are integers\<close>
  "sums_to_100 a b =
     (case (a, b) of
        (Fin x, Fin y) \<Rightarrow>
          0 \<le> x \<and> x \<le> 100 \<and> 0 \<le> y \<and> y \<le> 100
          \<and> \<bar>x + y - 100\<bar> \<le> 1 / 100 + 1 / 2 ^ 40
          \<and> (x = of_int \<lfloor>x\<rfloor> \<and> y = of_int \<lfloor>y\<rfloor> \<longrightarrow> x + y = 100)
      | _ \<Rightarrow> False)"

definition complement_letter :: "char \<Rightarrow> char" where
  "complement_letter l =
     (if l = CHR ''E'' then CHR ''I'' else if l = CHR ''I'' then CHR ''E''
      else if l = CHR ''S'' then CHR ''N'' else if l = CHR ''N'' then CHR ''S''
      else if l = CHR ''T'' then CHR ''F'' else if l = CHR ''F'' then CHR ''T''
      else if l = CHR ''J'' then CHR ''P'' else if l = CHR ''P'' then CHR ''J''
      else l)"

definition spec_pair :: "trait_scores \<Rightarrow> nat \<Rightarrow> jsnum \<times> jsnum" where
  \<comment> \<open>the two percentages of dimension \<open>k\<close>, in the order EI, SN, TF, JP\<close>
  "spec_pair sc k =
     (if k = 0 then (extrovert sc, introvert sc)
      else if k = 1 then (sensory sc, intuitive sc)
      else if k = 2 then (thinking sc, feeling sc)
      else (judging sc, perceiving sc))"

definition spec_close :: "rat \<Rightarrow> trait_scores \<Rightarrow> nat \<Rightarrow> bool" where
  "spec_close threshold sc k =
     js_lt (Math_abs (js_sub (fst (spec_pair sc k)) (snd (spec_pair sc k)))) (Fin threshold)"

definition spec_flip :: "string \<Rightarrow> nat \<Rightarrow> string" where
  "spec_flip primary k = primary[k := complement_letter (primary ! k)]"

definition spec_alternatives :: "rat \<Rightarrow> trait_scores \<Rightarrow> string \<Rightarrow> string list" where
  "spec_alternatives threshold sc primary =
     map (spec_flip primary) (take 2 (filter (spec_close threshold sc) [0, 1, 2, 3]))"

definition differing_positions :: "string \<Rightarrow> string \<Rightarrow> nat list" where
  "differing_positions a b = filter (\<lambda>k. a ! k \<noteq> b ! k) [0..<length a]"

definition type_letters :: "char set" where
  "type_letters = set ''EISNTFJP''"

section \<open>Evaluation and counting lemmas\<close>

lemma floor_rat_numeral_quotient [simp]:
  "\<lfloor>numeral a / numeral b :: rat\<rfloor> = numeral a div numeral b"
  by (metis floor_divide_of_int_eq of_int_numeral)

lemma ceiling_rat_numeral_quotient [simp]:
  "\<lceil>numeral a / numeral b :: rat\<rceil> = - (- numeral a div numeral b)"
  by (metis ceiling_def floor_divide_of_int_eq minus_divide_left of_int_minus of_int_numeral)

lemma floor_rat_one_quotient [simp]:
  "\<lfloor>1 / numeral b :: rat\<rfloor> = 1 div numeral b"
  by (metis floor_divide_of_int_eq of_int_1 of_int_numeral)

lemma ceiling_rat_one_quotient [simp]:
  "\<lceil>1 / numeral b :: rat\<rceil> = - (- 1 div numeral b)"
  by (metis ceiling_def floor_divide_of_int_eq minus_divide_left of_int_minus of_int_1 of_int_numeral)

lemmas fl_eval = fl_def ilog2_def pow2_def round_even_def Let_def bitlen_def compute_floorlog

lemmas pct_eval = percentage_def js_div_count_def fl_eval

text \<open>
  The rounding function does what it is meant to: \<open>ilog2\<close> is the binary exponent of its
  argument, \<open>round_even\<close> returns a nearest integer, and \<open>fl x\<close> lies within half a unit
  in the last place of \<open>x\<close>.
\<close>

lemma round_even_nearest: "\<bar>of_int (round_even x) - x\<bar> \<le> 1 / 2"
proof -
  have "of_int \<lfloor>x\<rfloor> \<le> x" "x < of_int \<lfloor>x\<rfloor> + 1"
    by linarith+
  then show ?thesis
    by (auto simp add: round_even_def Let_def abs_le_iff)
qed

lemma pow2_nat: "0 \<le> k \<Longrightarrow> pow2 k = 2 ^ nat k"
  by (simp add: pow2_def)

lemma ilog2_bounds:
  assumes "0 < x"
  shows "pow2 (ilog2 x) \<le> x \<and> x < pow2 (ilog2 x + 1)"
proof (cases "1 \<le> x")
  case True
  define a where "a = \<lfloor>x\<rfloor>"
  from True have a_pos: "0 < a" by (simp add: a_def)
  have ax: "of_int a \<le> x" "x < of_int (a + 1)"
    unfolding a_def by linarith+
  from a_pos have b: "2 ^ nat (bitlen a - 1) \<le> a" "a < 2 ^ nat (bitlen a)"
    using bitlen_bounds [of a] by simp_all
  from a_pos have pos: "1 \<le> bitlen a"
    using bitlen_eq_zero_iff [of a] bitlen_nonneg [of a] by linarith
  have e: "ilog2 x = bitlen a - 1"
    using True by (simp add: ilog2_def a_def)
  have p: "pow2 (ilog2 x) = 2 ^ nat (bitlen a - 1)"
    using pos by (simp add: e pow2_def)
  have q: "pow2 (ilog2 x + 1) = 2 ^ nat (bitlen a)"
    using pos by (simp add: e pow2_def)
  have "(2::rat) ^ nat (bitlen a - 1) \<le> of_int a"
    using b(1) by (metis of_int_le_iff of_int_numeral of_int_power)
  then have lo: "pow2 (ilog2 x) \<le> x"
    unfolding p using ax(1) by (rule order_trans)
  from b(2) have "a + 1 \<le> 2 ^ nat (bitlen a)" by simp
  then have "(of_int (a + 1) :: rat) \<le> 2 ^ nat (bitlen a)"
    by (metis of_int_le_iff of_int_numeral of_int_power)
  with ax(2) have hi: "x < pow2 (ilog2 x + 1)"
    unfolding q by (rule less_le_trans)
  from lo hi show ?thesis ..
next
  case False
  define y where "y = 1 / x"
  define b where "b = \<lceil>y\<rceil> - 1"
  define k where "k = bitlen b"
  from assms False have y1: "1 < y" by (simp add: y_def)
  then have "2 \<le> \<lceil>y\<rceil>" by (simp add: le_ceiling_iff)
  then have b_pos: "0 < b" by (simp add: b_def)
  have bnd: "of_int b < y" "y \<le> of_int (b + 1)"
    unfolding b_def by linarith+
  from b_pos have bb: "2 ^ nat (k - 1) \<le> b" "b < 2 ^ nat k"
    unfolding k_def using bitlen_bounds [of b] by simp_all
  from b_pos have kpos: "1 \<le> k"
    unfolding k_def using bitlen_eq_zero_iff [of b] bitlen_nonneg [of b] by linarith
  have e: "ilog2 x = - k"
    using False by (simp add: ilog2_def y_def b_def k_def)
  have x_eq: "1 / y = x" by (simp add: y_def)
  have p: "pow2 (ilog2 x) = 1 / 2 ^ nat k"
    using kpos by (simp add: e pow2_def)
  have q: "pow2 (ilog2 x + 1) = 1 / 2 ^ nat (k - 1)"
    using kpos by (cases "k = 1") (simp_all add: e pow2_def)
  from bb(2) have "b + 1 \<le> 2 ^ nat k" by simp
  then have "(of_int (b + 1) :: rat) \<le> 2 ^ nat k"
    by (metis of_int_le_iff of_int_numeral of_int_power)
  with bnd(2) have "y \<le> 2 ^ nat k" by (rule order_trans)
  with y1 have "1 / 2 ^ nat k \<le> 1 / y"
    by (simp add: frac_le)
  then have lo: "pow2 (ilog2 x) \<le> x"
    unfolding p x_eq .
  have "(2::rat) ^ nat (k - 1) \<le> of_int b"
    using bb(1) by (metis of_int_le_iff of_int_numeral of_int_power)
  then have "2 ^ nat (k - 1) < y" using bnd(1) by (rule le_less_trans)
  then have "1 / y < 1 / 2 ^ nat (k - 1)"
    by (simp add: frac_less2)
  then have hi: "x < pow2 (ilog2 x + 1)"
    unfolding q x_eq .
  from lo hi show ?thesis ..
qed

lemma fl_error:
  assumes "x \<noteq> 0"
  shows "\<bar>fl x - x\<bar> \<le> pow2 (ilog2 \<bar>x\<bar> - 52) / 2"
proof -
  define u where "u = pow2 (ilog2 \<bar>x\<bar> - 52)"
  have u_pos: "0 < u" by (simp add: u_def pow2_def)
  define m where "m = round_even (\<bar>x\<bar> / u)"
  have "fl x = sgn x * of_int m * u"
    using assms by (simp add: fl_def Let_def u_def m_def)
  moreover have "x = sgn x * (\<bar>x\<bar> / u) * u"
    using u_pos by (simp add: sgn_mult_abs)
  ultimately have "fl x - x = sgn x * (of_int m - \<bar>x\<bar> / u) * u"
    by (simp add: algebra_simps)
  then have "\<bar>fl x - x\<bar> = \<bar>of_int m - \<bar>x\<bar> / u\<bar> * u"
    using assms u_pos by (simp add: abs_mult abs_sgn_eq)
  also have "\<dots> \<le> (1 / 2) * u"
    using round_even_nearest [of "\<bar>x\<bar> / u"] u_pos
    unfolding m_def by (intro mult_right_mono) simp_all
  finally show ?thesis by (simp add: u_def)
qed

lemma percentage_zero_tally: "percentage 0 q = (if q = 0 then NaN else Fin 0)"
  by (simp add: percentage_def js_div_count_def fl_def)

lemma percentage_zero_denominator: "percentage c 0 = (if c = 0 then NaN else PInf)"
  by (simp add: percentage_def js_div_count_def)

lemma tally:
  "E (foldl count_answer c xs) = E c + count_list xs ''E''"
  "I (foldl count_answer c xs) = I c + count_list xs ''I''"
  "S (foldl count_answer c xs) = S c + count_list xs ''S''"
  "N (foldl count_answer c xs) = N c + count_list xs ''N''"
  "T (foldl count_answer c xs) = T c + count_list xs ''T''"
  "F (foldl count_answer c xs) = F c + count_list xs ''F''"
  "J (foldl count_answer c xs) = J c + count_list xs ''J''"
  "P (foldl count_answer c xs) = P c + count_list xs ''P''"
  by (induction xs arbitrary: c; simp add: count_answer_def)+

lemma tally_filter:
  "foldl count_answer c (filter recognized xs) = foldl count_answer c xs"
  by (induction xs arbitrary: c) (auto simp add: count_answer_def recognized_def)

lemma calculateResult_counted:
  "calculateResult ans qc =
     Inr \<lparr>scores = counted_scores ans qc,
          personalityType = primary_type (counted_scores ans qc),
          alternativeType1 = or_null (array_get
            (getAlternativeTypes (counted_scores ans qc) (primary_type (counted_scores ans qc))) 0),
          alternativeType2 = or_null (array_get
            (getAlternativeTypes (counted_scores ans qc) (primary_type (counted_scores ans qc))) 1)\<rparr>"
  by (simp add: calculateResult_def counted_scores_def tally initial_counts_def Let_def)

lemma count_list_replicate: "count_list (replicate n x) y = (if x = y then n else 0)"
  by (induction n) auto

lemmas alt_eval = getAlternativeTypes_def dimensions_def is_close_def flip_dimension_def
  array_get_def array_set_join_def or_null_def closeThreshold_def js_sub_def
  primary_type_def js_ge_def Let_def

lemma is_close_dimensions:
  "is_close th sc \<lparr>pair = (extrovert, introvert), letters = l0, index = i0\<rparr> = spec_close th sc 0"
  "is_close th sc \<lparr>pair = (sensory, intuitive), letters = l1, index = i1\<rparr> = spec_close th sc (Suc 0)"
  "is_close th sc \<lparr>pair = (thinking, feeling), letters = l2, index = i2\<rparr> = spec_close th sc 2"
  "is_close th sc \<lparr>pair = (judging, perceiving), letters = l3, index = i3\<rparr> = spec_close th sc 3"
  by (simp_all add: is_close_def spec_close_def spec_pair_def)

lemma flip_dimension_primary:
  "flip_dimension (primary_type sc) alts \<lparr>pair = p0, letters = ''EI'', index = 0\<rparr> =
     alts @ [spec_flip (primary_type sc) 0]"
  "flip_dimension (primary_type sc) alts \<lparr>pair = p1, letters = ''SN'', index = Suc 0\<rparr> =
     alts @ [spec_flip (primary_type sc) (Suc 0)]"
  "flip_dimension (primary_type sc) alts \<lparr>pair = p2, letters = ''TF'', index = 2\<rparr> =
     alts @ [spec_flip (primary_type sc) 2]"
  "flip_dimension (primary_type sc) alts \<lparr>pair = p3, letters = ''JP'', index = 3\<rparr> =
     alts @ [spec_flip (primary_type sc) 3]"
  by (simp_all add: flip_dimension_def primary_type_def spec_flip_def array_get_def
      array_set_join_def complement_letter_def Let_def)

lemma alternatives_with_threshold:
  "foldl (flip_dimension (primary_type sc)) [] (take 2 (filter (is_close th sc) dimensions)) =
     spec_alternatives th sc (primary_type sc)"
  by (cases "spec_close th sc 0"; cases "spec_close th sc (Suc 0)";
      cases "spec_close th sc 2"; cases "spec_close th sc 3";
      simp add: dimensions_def spec_alternatives_def is_close_dimensions flip_dimension_primary)

lemma getAlternativeTypes_primary:
  "getAlternativeTypes sc (primary_type sc) = spec_alternatives closeThreshold sc (primary_type sc)"
  by (simp add: getAlternativeTypes_def alternatives_with_threshold)

lemma pow2_pos: "0 < pow2 k"
  by (simp add: pow2_def)

lemma round_even_nonneg: "0 \<le> x \<Longrightarrow> 0 \<le> round_even x"
  by (simp add: round_even_def Let_def)

lemma fl_nonneg: "0 \<le> x \<Longrightarrow> 0 \<le> fl x"
  using pow2_pos [of "ilog2 \<bar>x\<bar> - 52"]
  by (simp add: fl_def Let_def round_even_nonneg less_imp_le)

lemma Math_round_nonneg: "0 \<le> x \<Longrightarrow> Math_round (Fin x) = js_round_half_away (Fin x)"
  by (simp add: round_half_away_def)

lemma percentage_spec:
  "percentage c q = js_round_half_away (js_mul (js_div_count c q) (Fin 100))"
proof (cases "q = 0")
  case True
  then show ?thesis
    by (simp add: percentage_def js_div_count_def)
next
  case False
  have "0 \<le> fl (fl (of_nat c / of_nat q) * 100)"
    by (intro fl_nonneg mult_nonneg_nonneg) simp_all
  then have "\<not> fl (fl (of_nat c / of_nat q) * 100) < 0"
    by simp
  with False show ?thesis
    by (simp add: percentage_def js_div_count_def round_half_away_def)
qed

lemma chosen_letter_ge: "chosen_letter x y f s (if js_ge x y then f else s)"
  by (cases x; cases y; simp add: chosen_letter_def js_ge_def js_gt_def js_eq_def)

lemma percentage_values:
  "percentage 5 10 = Fin 50" "percentage 10 20 = Fin 50" "percentage 9 18 = Fin 50"
  "percentage 8 16 = Fin 50" "percentage 6 16 = Fin 38" "percentage 10 16 = Fin 63"
  "percentage 5 20 = Fin 25" "percentage 4 10 = Fin 40" "percentage 1 20 = Fin 5"
  by (simp_all add: pct_eval)

lemma spec_alternatives_length:
  "length (spec_alternatives th sc pt) \<le> 2"
  by (simp add: spec_alternatives_def)

lemma spec_alternatives_members:
  "a \<in> set (spec_alternatives th sc pt) \<Longrightarrow> \<exists>k<4. a = spec_flip pt k"
proof -
  assume "a \<in> set (spec_alternatives th sc pt)"
  then obtain k where "k \<in> set (take 2 (filter (spec_close th sc) [0, 1, 2, 3]))"
      and a: "a = spec_flip pt k"
    by (auto simp add: spec_alternatives_def)
  then have "k \<in> set [0, 1, 2, 3::nat]"
    by (meson filter_is_subset in_set_takeD subsetD)
  then have "k < 4" by auto
  with a show ?thesis by blast
qed

lemma upt_4: "[0..<4] = [0, 1, 2, 3]"
  by (simp add: upt_rec)

lemma spec_flip_primary:
  assumes "k < 4"
  shows "length (spec_flip (primary_type sc) k) = 4"
    and "set (spec_flip (primary_type sc) k) \<subseteq> type_letters"
    and "differing_positions (spec_flip (primary_type sc) k) (primary_type sc) = [k]"
proof -
  from assms consider "k = 0" | "k = 1" | "k = 2" | "k = 3" by linarith
  then have "length (spec_flip (primary_type sc) k) = 4
      \<and> set (spec_flip (primary_type sc) k) \<subseteq> type_letters
      \<and> differing_positions (spec_flip (primary_type sc) k) (primary_type sc) = [k]"
    by cases (simp_all add: spec_flip_def primary_type_def complement_letter_def
        type_letters_def differing_positions_def upt_4)
  then show "length (spec_flip (primary_type sc) k) = 4"
    and "set (spec_flip (primary_type sc) k) \<subseteq> type_letters"
    and "differing_positions (spec_flip (primary_type sc) k) (primary_type sc) = [k]"
    by simp_all
qed

lemma or_null_array_get:
  assumes "\<forall>a\<in>set xs. a \<noteq> []"
  shows "or_null (array_get xs k) = array_get xs k"
  using assms by (auto simp add: or_null_def array_get_def)

lemma spec_alternatives_nonempty:
  "\<forall>a\<in>set (spec_alternatives th sc (primary_type sc)). a \<noteq> []"
proof
  fix a assume "a \<in> set (spec_alternatives th sc (primary_type sc))"
  then obtain k where "k < 4" "a = spec_flip (primary_type sc) k"
    using spec_alternatives_members by blast
  then have "length a = 4" using spec_flip_primary(1) by simp
  then show "a \<noteq> []" by auto
qed

lemma calculateResult_alternatives:
  "calculateResult ans qc =
     Inr \<lparr>scores = counted_scores ans qc,
          personalityType = primary_type (counted_scores ans qc),
          alternativeType1 = array_get (spec_alternatives closeThreshold (counted_scores ans qc)
             (primary_type (counted_scores ans qc))) 0,
          alternativeType2 = array_get (spec_alternatives closeThreshold (counted_scores ans qc)
             (primary_type (counted_scores ans qc))) 1\<rparr>"
  by (simp add: calculateResult_counted getAlternativeTypes_primary or_null_array_get
      spec_alternatives_nonempty)

lemma calculateResult_fixed_counted:
  "calculateResult_fixed ans qc =
     (let sc = \<lparr>extrovert = percentage (count_list ans ''E'') 10,
                introvert = percentage (count_list ans ''I'') 10,
                sensory = percentage (count_list ans ''S'') 20,
                intuitive = percentage (count_list ans ''N'') 20,
                thinking = percentage (count_list ans ''T'') 20,
                feeling = percentage (count_list ans ''F'') 20,
                judging = percentage (count_list ans ''J'') 20,
                perceiving = percentage (count_list ans ''P'') 20\<rparr>
      in Inr \<lparr>scores = sc, personalityType = primary_type sc,
          alternativeType1 = or_null (array_get (getAlternativeTypes_fixed sc (primary_type sc)) 0),
          alternativeType2 = or_null (array_get (getAlternativeTypes_fixed sc (primary_type sc)) 1)\<rparr>)"
  by (simp add: calculateResult_fixed_def tally initial_counts_def Let_def)

lemmas alt_fixed_eval = getAlternativeTypes_fixed_def dimensions_def is_close_def
  flip_dimension_def array_get_def array_set_join_def or_null_def closeThreshold_fixed_def
  js_sub_def primary_type_def js_ge_def Let_def

lemma round_even_of_int: "round_even (of_int m) = m"
  by (simp add: round_even_def)

lemma fl_of_int:
  assumes "\<bar>k\<bar> < 2 ^ 53"
  shows "fl (of_int k) = of_int k"
proof (cases "k = 0")
  case True
  then show ?thesis by (simp add: fl_def)
next
  case False
  define a where "a = \<bar>k\<bar>"
  define e where "e = bitlen a - 1"
  define n where "n = nat (52 - e)"
  from False have a_pos: "0 < a" by (simp add: a_def)
  from assms have "bitlen a \<le> 53"
    by (simp add: bitlen_le_iff_power a_def)
  then have e_le: "e \<le> 52" by (simp add: e_def)
  have abs_x: "\<bar>of_int k :: rat\<bar> = of_int a"
    by (simp add: a_def)
  from a_pos have "ilog2 (of_int a) = e"
    by (simp add: ilog2_def e_def)
  moreover from e_le have "pow2 (e - 52) = 1 / 2 ^ n"
    by (cases "e = 52") (simp_all add: pow2_def n_def)
  moreover have "(of_int a :: rat) / (1 / 2 ^ n) = of_int (a * 2 ^ n)"
    by simp
  ultimately have "fl (of_int k) = sgn (of_int k) * of_int (a * 2 ^ n) * (1 / 2 ^ n)"
    using False by (simp only: fl_def abs_x Let_def round_even_of_int of_int_eq_0_iff if_False)
  also have "\<dots> = sgn (of_int k) * of_int a"
    by simp
  also have "\<dots> = of_int k"
    unfolding abs_x [symmetric] by (simp add: sgn_mult_abs)
  finally show ?thesis .
qed

lemma tolerance_value: "tolerance = 5764607523034235 / 576460752303423488"
  by (simp add: tolerance_def fl_eval)

lemma off_balance_integers:
  assumes "\<bar>i + j\<bar> < 2 ^ 52"
  shows "off_balance (Fin (of_int i)) (Fin (of_int j)) = (i + j \<noteq> 100)"
proof -
  from assms have "\<bar>i + j\<bar> < 2 ^ 53" by simp
  then have s: "fl (of_int i + of_int j) = of_int (i + j)"
    using fl_of_int [of "i + j"] by simp
  from assms have "\<bar>i + j - 100\<bar> < 2 ^ 53" by simp
  then have d: "fl (of_int (i + j) - 100) = of_int (i + j - 100)"
    using fl_of_int [of "i + j - 100"] by simp
  have "off_balance (Fin (of_int i)) (Fin (of_int j)) =
      (tolerance < \<bar>of_int (i + j - 100)\<bar>)"
    by (simp add: off_balance_def js_sub_def js_gt_def s d del: of_int_add of_int_diff)
  also have "\<dots> = (i + j \<noteq> 100)"
  proof (cases "i + j = 100")
    case True
    then show ?thesis by (simp add: tolerance_value)
  next
    case False
    then have "1 \<le> \<bar>i + j - 100\<bar>" by simp
    then have "(1::rat) \<le> \<bar>of_int (i + j - 100)\<bar>"
      by (metis of_int_1 of_int_abs of_int_le_iff)
    with False show ?thesis by (simp add: tolerance_value)
  qed
  finally show ?thesis .
qed

lemma pre_save_cases:
  "pre_save doc =
     (if off_balance (extrovert (scores doc)) (introvert (scores doc))
       \<or> off_balance (sensory (scores doc)) (intuitive (scores doc))
       \<or> off_balance (thinking (scores doc)) (feeling (scores doc))
       \<or> off_balance (judging (scores doc)) (perceiving (scores doc))
      then Inl (Error ''Complementary scores must add up to 100'')
      else Inr ())"
  by (simp add: pre_save_def complementary_pairs_def)

lemma percentage_finite:
  "0 < q \<Longrightarrow> \<exists>x. percentage c q = Fin x"
  by (simp add: percentage_def js_div_count_def)

lemma decided_finite: "decided (Fin x) (Fin y)"
  by (auto simp add: decided_def js_gt_def js_eq_def)

lemma decided_percentages:
  "0 < q \<Longrightarrow> decided (percentage c q) (percentage c' q)"
  using percentage_finite [of q c] percentage_finite [of q c'] decided_finite by auto

lemma pow2_mono: "a \<le> b \<Longrightarrow> pow2 a \<le> pow2 b"
proof -
  assume ab: "a \<le> b"
  consider "0 \<le> a" | "a < 0" "0 \<le> b" | "b < 0" using ab by linarith
  then show ?thesis
  proof cases
    case 1
    with ab show ?thesis
      by (simp add: pow2_def power_increasing)
  next
    case 2
    have "1 / (2::rat) ^ nat (- a) \<le> 1" by simp
    also have "\<dots> \<le> 2 ^ nat b" by simp
    finally show ?thesis using 2 by (simp add: pow2_def)
  next
    case 3
    with ab have "nat (- b) \<le> nat (- a)" by simp
    then have "(2::rat) ^ nat (- b) \<le> 2 ^ nat (- a)"
      by (simp add: power_increasing)
    then have "1 / (2::rat) ^ nat (- a) \<le> 1 / 2 ^ nat (- b)"
      by (simp add: frac_le)
    with 3 ab show ?thesis by (simp add: pow2_def)
  qed
qed

lemma fl_error_256:
  assumes "\<bar>x\<bar> < 256"
  shows "\<bar>fl x - x\<bar> \<le> 1 / 2 ^ 46"
proof (cases "x = 0")
  case True
  then show ?thesis by (simp add: fl_def)
next
  case False
  then have pos: "0 < \<bar>x\<bar>" by simp
  have "ilog2 \<bar>x\<bar> \<le> 7"
  proof (rule ccontr)
    assume "\<not> ilog2 \<bar>x\<bar> \<le> 7"
    then have "8 \<le> ilog2 \<bar>x\<bar>" by simp
    then have "pow2 8 \<le> pow2 (ilog2 \<bar>x\<bar>)" by (rule pow2_mono)
    also have "\<dots> \<le> \<bar>x\<bar>" using ilog2_bounds [OF pos] by simp
    finally show False using assms by (simp add: pow2_def)
  qed
  then have "pow2 (ilog2 \<bar>x\<bar> - 52) \<le> pow2 (- 45)"
    by (intro pow2_mono) simp
  then have "pow2 (ilog2 \<bar>x\<bar> - 52) / 2 \<le> 1 / 2 ^ 46"
    by (simp add: pow2_def)
  with fl_error [OF False] show ?thesis by linarith
qed

lemma hook_difference:
  assumes "0 \<le> x" "x \<le> 100" "0 \<le> y" "y \<le> 100"
  shows "\<bar>fl (fl (x + y) - 100) - (x + y - 100)\<bar> \<le> 1 / 2 ^ 45"
proof -
  have c: "(1::rat) / 2 ^ 46 \<le> 1" "(1::rat) / 2 ^ 46 + 1 / 2 ^ 46 = 1 / 2 ^ 45"
    by simp_all
  from assms have "\<bar>x + y\<bar> < 256" by simp
  then have e1: "\<bar>fl (x + y) - (x + y)\<bar> \<le> 1 / 2 ^ 46"
    by (rule fl_error_256)
  with assms c(1) have "\<bar>fl (x + y) - 100\<bar> < 256"
    by linarith
  then have e2: "\<bar>fl (fl (x + y) - 100) - (fl (x + y) - 100)\<bar> \<le> 1 / 2 ^ 46"
    by (rule fl_error_256)
  from e1 e2 c(2) show ?thesis
    by linarith
qed

lemma off_balance_finite:
  "off_balance (Fin x) (Fin y) = (tolerance < \<bar>fl (fl (x + y) - 100)\<bar>)"
  by (simp add: off_balance_def js_sub_def js_gt_def)

lemma tolerance_margins:
  "tolerance < 1 / 100 + 1 / 2 ^ 40 - 1 / 2 ^ 45"
  "1 / 100 - 1 / 2 ^ 40 + 1 / 2 ^ 45 \<le> tolerance"
  by (simp_all add: tolerance_value)

lemma off_balance_outside:
  assumes "0 \<le> x" "x \<le> 100" "0 \<le> y" "y \<le> 100"
    and "1 / 100 + 1 / 2 ^ 40 \<le> \<bar>x + y - 100\<bar>"
  shows "off_balance (Fin x) (Fin y)"
  unfolding off_balance_finite
  using hook_difference [OF assms(1-4)] assms(5) tolerance_margins(1)
  by linarith

lemma off_balance_inside:
  assumes "0 \<le> x" "x \<le> 100" "0 \<le> y" "y \<le> 100"
    and "\<bar>x + y - 100\<bar> \<le> 1 / 100 - 1 / 2 ^ 40"
  shows "\<not> off_balance (Fin x) (Fin y)"
  unfolding off_balance_finite
  using hook_difference [OF assms(1-4)] assms(5) tolerance_margins(2)
  by linarith

lemma in_range_cases: "in_range a = (\<exists>x. a = Fin x \<and> 0 \<le> x \<and> x \<le> 100)"
  by (cases a) (auto simp add: in_range_def js_ge_def)

lemma accepted_pair_sums_to_100:
  assumes "in_range a" "in_range b" "\<not> off_balance a b"
  shows "sums_to_100 a b"
proof -
  from assms(1,2) obtain x y where a: "a = Fin x" and b: "b = Fin y"
    and r: "0 \<le> x" "x \<le> 100" "0 \<le> y" "y \<le> 100"
    by (auto simp add: in_range_cases)
  have bound: "\<bar>x + y - 100\<bar> \<le> 1 / 100 + 1 / 2 ^ 40"
  proof (rule ccontr)
    assume "\<not> \<bar>x + y - 100\<bar> \<le> 1 / 100 + 1 / 2 ^ 40"
    then have "1 / 100 + 1 / 2 ^ 40 \<le> \<bar>x + y - 100\<bar>" by simp
    with r have "off_balance (Fin x) (Fin y)" by (rule off_balance_outside)
    with assms(3) a b show False by simp
  qed
  have exact: "x + y = 100" if "x = of_int \<lfloor>x\<rfloor>" "y = of_int \<lfloor>y\<rfloor>"
  proof -
    define k where "k = \<lfloor>x\<rfloor> + \<lfloor>y\<rfloor> - 100"
    from that have xy: "x + y - 100 = of_int k"
      by (simp add: k_def)
    from bound have "\<bar>(of_int k :: rat)\<bar> < 1"
      unfolding xy by simp
    then have "\<bar>k\<bar> < 1"
      by (metis of_int_1 of_int_abs of_int_less_iff)
    then have "k = 0" by simp
    with xy show ?thesis by simp
  qed
  from r bound exact show ?thesis
    by (simp add: sums_to_100_def a b)
qed

lemma create_saved:
  assumes "create odm st doc = (Inr saved, st')"
  shows "validate saved = Inr ()" "pre_save saved = Inr ()" "st' = st @ [saved]"
  using assms by (auto simp add: create_def split: sum.splits)

lemma create_rejected:
  assumes "create odm st doc = (Inl e, st')"
  shows "st' = st"
  using assms by (auto simp add: create_def split: sum.splits)

lemma validate_scores:
  assumes "validate doc = Inr ()"
  shows "in_range (extrovert (scores doc))" "in_range (introvert (scores doc))"
    "in_range (sensory (scores doc))" "in_range (intuitive (scores doc))"
    "in_range (thinking (scores doc))" "in_range (feeling (scores doc))"
    "in_range (judging (scores doc))" "in_range (perceiving (scores doc))"
  using assms by (auto simp add: validate_def failed_paths_def split: if_splits)

section \<open>Inputs the specification calls invalid\<close>

text \<open>
  On an empty answer sequence the code raises nothing: with the denominators of the
  documentation's example it returns all scores 0, the type ESTJ and two alternatives.
\<close>

theorem empty_answers_return_a_result:
  "calculateResult [] \<lparr>EI = 20, SN = 18, TF = 16, JP = 16\<rparr> =
   Inr \<lparr>scores = \<lparr>extrovert = Fin 0, introvert = Fin 0, sensory = Fin 0, intuitive = Fin 0,
                   thinking = Fin 0, feeling = Fin 0, judging = Fin 0, perceiving = Fin 0\<rparr>,
        personalityType = ''ESTJ'', alternativeType1 = Some ''ISTJ'',
        alternativeType2 = Some ''ENTJ''\<rparr>"
  by (simp add: calculateResult_counted counted_scores_def percentage_zero_tally alt_eval fl_def)

text \<open>
  C1 (as amended): \<open>calculateResult\<close> has no invalid-input failure. For every answer
  sequence and all denominators it returns a result. Where a dimension's denominator is
  zero, the percentage of a letter of that dimension is Infinity when the letter has a
  nonzero tally and NaN when its tally is zero; on the empty sequence every percentage is 0
  (NaN under a zero denominator).
\<close>

theorem calculateResult_no_input_error:
  "\<exists>r. calculateResult ans qc = Inr r
     \<and> (EI qc = 0 \<longrightarrow>
          extrovert (scores r) = (if count_list ans ''E'' = 0 then NaN else PInf)
        \<and> introvert (scores r) = (if count_list ans ''I'' = 0 then NaN else PInf))
     \<and> (SN qc = 0 \<longrightarrow>
          sensory (scores r) = (if count_list ans ''S'' = 0 then NaN else PInf)
        \<and> intuitive (scores r) = (if count_list ans ''N'' = 0 then NaN else PInf))
     \<and> (TF qc = 0 \<longrightarrow>
          thinking (scores r) = (if count_list ans ''T'' = 0 then NaN else PInf)
        \<and> feeling (scores r) = (if count_list ans ''F'' = 0 then NaN else PInf))
     \<and> (JP qc = 0 \<longrightarrow>
          judging (scores r) = (if count_list ans ''J'' = 0 then NaN else PInf)
        \<and> perceiving (scores r) = (if count_list ans ''P'' = 0 then NaN else PInf))
     \<and> (ans = [] \<longrightarrow>
          scores r =
            \<lparr>extrovert = (if EI qc = 0 then NaN else Fin 0),
             introvert = (if EI qc = 0 then NaN else Fin 0),
             sensory = (if SN qc = 0 then NaN else Fin 0),
             intuitive = (if SN qc = 0 then NaN else Fin 0),
             thinking = (if TF qc = 0 then NaN else Fin 0),
             feeling = (if TF qc = 0 then NaN else Fin 0),
             judging = (if JP qc = 0 then NaN else Fin 0),
             perceiving = (if JP qc = 0 then NaN else Fin 0)\<rparr>)"
  by (simp add: calculateResult_counted counted_scores_def percentage_zero_tally
      percentage_zero_denominator)

theorem calculateResult_no_input_error_witness:
  "(\<exists>r. calculateResult [''E''] \<lparr>EI = 0, SN = 0, TF = 0, JP = 0\<rparr> = Inr r
      \<and> extrovert (scores r) = PInf \<and> introvert (scores r) = NaN
      \<and> sensory (scores r) = NaN \<and> intuitive (scores r) = NaN
      \<and> thinking (scores r) = NaN \<and> feeling (scores r) = NaN
      \<and> judging (scores r) = NaN \<and> perceiving (scores r) = NaN)
   \<and> (\<exists>r. calculateResult [] \<lparr>EI = 0, SN = 18, TF = 16, JP = 16\<rparr> = Inr r
      \<and> scores r = \<lparr>extrovert = NaN, introvert = NaN, sensory = Fin 0, intuitive = Fin 0,
                     thinking = Fin 0, feeling = Fin 0, judging = Fin 0, perceiving = Fin 0\<rparr>)"
  using calculateResult_no_input_error [of "[''E'']" "\<lparr>EI = 0, SN = 0, TF = 0, JP = 0\<rparr>"]
    calculateResult_no_input_error [of "[]" "\<lparr>EI = 0, SN = 18, TF = 16, JP = 16\<rparr>"]
  by auto

section \<open>Unrecognised answers\<close>

text \<open>
  C6: an answer that is not one of the eight letters E, I, S, N, T, F, J, P is excluded
  from every tally: the tallies and the whole result are those of the sequence with such
  answers removed, and no error is raised.
\<close>

theorem unrecognized_answers_excluded:
  "foldl count_answer initial_counts ans = foldl count_answer initial_counts (filter recognized ans)
   \<and> calculateResult ans qc = calculateResult (filter recognized ans) qc
   \<and> (\<exists>r. calculateResult ans qc = Inr r)"
  by (simp add: tally_filter calculateResult_def Let_def)

section \<open>Totality\<close>

text \<open>
  C8: \<open>calculateResult\<close> returns a result object for every answer array and all
  denominators, the empty array included; on the empty array with positive denominators
  all eight scores are 0 and the primary type is ESTJ.
\<close>

theorem calculateResult_total:
  "(\<exists>r. calculateResult ans qc = Inr r) \<and>
   (0 < EI qc \<and> 0 < SN qc \<and> 0 < TF qc \<and> 0 < JP qc \<longrightarrow>
      (\<exists>r. calculateResult [] qc = Inr r
         \<and> scores r = \<lparr>extrovert = Fin 0, introvert = Fin 0, sensory = Fin 0,
                        intuitive = Fin 0, thinking = Fin 0, feeling = Fin 0,
                        judging = Fin 0, perceiving = Fin 0\<rparr>
         \<and> personalityType r = ''ESTJ''))"
  by (simp add: calculateResult_counted counted_scores_def percentage_zero_tally
      primary_type_def js_ge_def)

theorem calculateResult_total_witness:
  "(\<exists>r. calculateResult [''I'', ''N''] \<lparr>EI = 20, SN = 18, TF = 16, JP = 16\<rparr> = Inr r) \<and>
   (\<exists>r. calculateResult [] \<lparr>EI = 20, SN = 18, TF = 16, JP = 16\<rparr> = Inr r
         \<and> scores r = \<lparr>extrovert = Fin 0, introvert = Fin 0, sensory = Fin 0,
                        intuitive = Fin 0, thinking = Fin 0, feeling = Fin 0,
                        judging = Fin 0, perceiving = Fin 0\<rparr>
         \<and> personalityType r = ''ESTJ'')"
  using calculateResult_total [of "[''I'', ''N'']" "\<lparr>EI = 20, SN = 18, TF = 16, JP = 16\<rparr>"]
  by simp

section \<open>The percentages\<close>

text \<open>
  Read in exact arithmetic, the specification's formula fails on the code. With 23 answers
  E and 40 questions in the dimension, the double nearest to \<open>23 / 40\<close> lies below
  \<open>0.575\<close>, its product with 100 rounds to a double below \<open>57.5\<close>, and \<open>Math.round\<close>
  gives 57, where rounding the exact value \<open>57.5\<close> half away from zero gives 58.
\<close>

theorem exact_rounding_fails_at_23_of_40:
  "calculateResult (replicate 23 ''E'') \<lparr>EI = 40, SN = 40, TF = 40, JP = 40\<rparr> =
     Inr \<lparr>scores = \<lparr>extrovert = Fin 57, introvert = Fin 0, sensory = Fin 0, intuitive = Fin 0,
                     thinking = Fin 0, feeling = Fin 0, judging = Fin 0, perceiving = Fin 0\<rparr>,
          personalityType = ''ESTJ'', alternativeType1 = Some ''ENTJ'',
          alternativeType2 = Some ''ESFJ''\<rparr>
   \<and> exact_percentage (replicate 23 ''E'') ''E'' 40 = 58
   \<and> js_div_count 23 40 = Fin (2589569785738035 / 4503599627370496)
   \<and> js_mul (js_div_count 23 40) (Fin 100) = Fin (8092405580431359 / 140737488355328)"
proof -
  have d: "js_div_count 23 40 = Fin (2589569785738035 / 4503599627370496)"
    by (simp add: js_div_count_def fl_eval)
  have m: "js_mul (js_div_count 23 40) (Fin 100) = Fin (8092405580431359 / 140737488355328)"
    unfolding d by (simp add: fl_eval)
  have p: "percentage 23 40 = Fin 57"
    unfolding percentage_def m by simp
  have s: "counted_scores (replicate 23 ''E'') \<lparr>EI = 40, SN = 40, TF = 40, JP = 40\<rparr> =
     \<lparr>extrovert = Fin 57, introvert = Fin 0, sensory = Fin 0, intuitive = Fin 0,
      thinking = Fin 0, feeling = Fin 0, judging = Fin 0, perceiving = Fin 0\<rparr>"
    by (simp add: counted_scores_def count_list_replicate percentage_zero_tally p)
  have r: "calculateResult (replicate 23 ''E'') \<lparr>EI = 40, SN = 40, TF = 40, JP = 40\<rparr> =
     Inr \<lparr>scores = \<lparr>extrovert = Fin 57, introvert = Fin 0, sensory = Fin 0, intuitive = Fin 0,
                     thinking = Fin 0, feeling = Fin 0, judging = Fin 0, perceiving = Fin 0\<rparr>,
          personalityType = ''ESTJ'', alternativeType1 = Some ''ENTJ'',
          alternativeType2 = Some ''ESFJ''\<rparr>"
    unfolding calculateResult_counted s by (simp add: alt_eval fl_eval)
  have x: "exact_percentage (replicate 23 ''E'') ''E'' 40 = 58"
    by (simp add: exact_percentage_def count_list_replicate round_half_away_def)
  from r x d m show ?thesis by simp
qed

text \<open>
  C3 (as amended): the tallies are the numbers of occurrences of the eight letters in the
  answers, and each of the eight percentages is
  \<open>round(count(letter) / dimensionCounts[dimension] * 100)\<close> evaluated in the program's
  binary64 arithmetic (the quotient and the product each rounded to the nearest double),
  where \<open>round\<close> rounds half away from zero; on these non-negative values it agrees with
  \<open>Math.round\<close>.
\<close>

theorem scores_are_rounded_binary64_percentages:
  "\<exists>r. calculateResult ans qc = Inr r
     \<and> foldl count_answer initial_counts ans =
         \<lparr>E = count_list ans ''E'', I = count_list ans ''I'', S = count_list ans ''S'',
          N = count_list ans ''N'', T = count_list ans ''T'', F = count_list ans ''F'',
          J = count_list ans ''J'', P = count_list ans ''P''\<rparr>
     \<and> extrovert (scores r) = spec_percentage ans ''E'' (EI qc)
     \<and> introvert (scores r) = spec_percentage ans ''I'' (EI qc)
     \<and> sensory (scores r) = spec_percentage ans ''S'' (SN qc)
     \<and> intuitive (scores r) = spec_percentage ans ''N'' (SN qc)
     \<and> thinking (scores r) = spec_percentage ans ''T'' (TF qc)
     \<and> feeling (scores r) = spec_percentage ans ''F'' (TF qc)
     \<and> judging (scores r) = spec_percentage ans ''J'' (JP qc)
     \<and> perceiving (scores r) = spec_percentage ans ''P'' (JP qc)"
proof -
  have "foldl count_answer initial_counts ans =
         \<lparr>E = count_list ans ''E'', I = count_list ans ''I'', S = count_list ans ''S'',
          N = count_list ans ''N'', T = count_list ans ''T'', F = count_list ans ''F'',
          J = count_list ans ''J'', P = count_list ans ''P''\<rparr>"
    by (rule letter_counts.equality) (simp_all add: tally initial_counts_def)
  then show ?thesis
    by (simp add: calculateResult_counted counted_scores_def spec_percentage_def
        percentage_spec)
qed

text \<open>
  C2: where every answer is a recognised letter and the two tallies of each dimension add
  up to its denominator, the code can still return a complementary pair that sums to 101:
  with 6 answers T and 10 answers F out of 16 questions the percentages are 38 and 63, both
  halves rounded up. The \<open>pre('save')\<close> hook of the Result model then rejects the result.
\<close>

theorem matched_tallies_sum_to_101:
  "count_list (replicate 10 ''E'' @ replicate 10 ''I'' @ replicate 9 ''S'' @ replicate 9 ''N''
       @ replicate 6 ''T'' @ replicate 10 ''F'' @ replicate 8 ''J'' @ replicate 8 ''P'') ''T''
     + count_list (replicate 10 ''E'' @ replicate 10 ''I'' @ replicate 9 ''S'' @ replicate 9 ''N''
       @ replicate 6 ''T'' @ replicate 10 ''F'' @ replicate 8 ''J'' @ replicate 8 ''P'') ''F''
     = TF \<lparr>EI = 20, SN = 18, TF = 16, JP = 16\<rparr>
   \<and> calculateResult
       (replicate 10 ''E'' @ replicate 10 ''I'' @ replicate 9 ''S'' @ replicate 9 ''N''
        @ replicate 6 ''T'' @ replicate 10 ''F'' @ replicate 8 ''J'' @ replicate 8 ''P'')
       \<lparr>EI = 20, SN = 18, TF = 16, JP = 16\<rparr> =
     Inr \<lparr>scores = \<lparr>extrovert = Fin 50, introvert = Fin 50, sensory = Fin 50,
                     intuitive = Fin 50, thinking = Fin 38, feeling = Fin 63,
                     judging = Fin 50, perceiving = Fin 50\<rparr>,
          personalityType = ''ESFJ'', alternativeType1 = Some ''ISFJ'',
          alternativeType2 = Some ''ENFJ''\<rparr>
   \<and> js_add (Fin 38) (Fin 63) = Fin 101
   \<and> off_balance (Fin 38) (Fin 63)"
proof -
  have s: "counted_scores
       (replicate 10 ''E'' @ replicate 10 ''I'' @ replicate 9 ''S'' @ replicate 9 ''N''
        @ replicate 6 ''T'' @ replicate 10 ''F'' @ replicate 8 ''J'' @ replicate 8 ''P'')
       \<lparr>EI = 20, SN = 18, TF = 16, JP = 16\<rparr> =
     \<lparr>extrovert = Fin 50, introvert = Fin 50, sensory = Fin 50,
                     intuitive = Fin 50, thinking = Fin 38, feeling = Fin 63,
                     judging = Fin 50, perceiving = Fin 50\<rparr>"
    by (simp add: counted_scores_def count_list_replicate percentage_values)
  have r: "calculateResult
       (replicate 10 ''E'' @ replicate 10 ''I'' @ replicate 9 ''S'' @ replicate 9 ''N''
        @ replicate 6 ''T'' @ replicate 10 ''F'' @ replicate 8 ''J'' @ replicate 8 ''P'')
       \<lparr>EI = 20, SN = 18, TF = 16, JP = 16\<rparr> =
     Inr \<lparr>scores = \<lparr>extrovert = Fin 50, introvert = Fin 50, sensory = Fin 50,
                     intuitive = Fin 50, thinking = Fin 38, feeling = Fin 63,
                     judging = Fin 50, perceiving = Fin 50\<rparr>,
          personalityType = ''ESFJ'', alternativeType1 = Some ''ISFJ'',
          alternativeType2 = Some ''ENFJ''\<rparr>"
    unfolding calculateResult_counted s by (simp add: alt_eval fl_eval)
  have a: "js_add (Fin 38) (Fin 63) = Fin 101"
    by (simp add: fl_eval)
  have o: "off_balance (Fin 38) (Fin 63)"
    unfolding off_balance_def a by (simp add: js_sub_def js_gt_def tolerance_def fl_eval)
  from r a o show ?thesis
    by (simp add: count_list_replicate)
qed

section \<open>The primary type\<close>

text \<open>
  C5: the primary type is the concatenation, in the order EI, SN, TF, JP, of one letter per
  dimension, chosen from the percentages of the answers: the letter with the strictly
  higher percentage, and on a tie the first letter of the pair (E, S, T, J). With a
  positive denominator one of these cases always applies; otherwise (a percentage is NaN)
  the code returns the second letter.
\<close>

theorem primary_type_takes_higher_letter:
  "\<exists>l0 l1 l2 l3.
     calculateResult ans qc =
       Inr \<lparr>scores = counted_scores ans qc, personalityType = [l0, l1, l2, l3],
            alternativeType1 = array_get (getAlternativeTypes (counted_scores ans qc)
               [l0, l1, l2, l3]) 0,
            alternativeType2 = array_get (getAlternativeTypes (counted_scores ans qc)
               [l0, l1, l2, l3]) 1\<rparr>
     \<and> chosen_letter (extrovert (counted_scores ans qc)) (introvert (counted_scores ans qc))
          CHR ''E'' CHR ''I'' l0
     \<and> chosen_letter (sensory (counted_scores ans qc)) (intuitive (counted_scores ans qc))
          CHR ''S'' CHR ''N'' l1
     \<and> chosen_letter (thinking (counted_scores ans qc)) (feeling (counted_scores ans qc))
          CHR ''T'' CHR ''F'' l2
     \<and> chosen_letter (judging (counted_scores ans qc)) (perceiving (counted_scores ans qc))
          CHR ''J'' CHR ''P'' l3
     \<and> (0 < EI qc \<longrightarrow>
          decided (extrovert (counted_scores ans qc)) (introvert (counted_scores ans qc)))
     \<and> (0 < SN qc \<longrightarrow>
          decided (sensory (counted_scores ans qc)) (intuitive (counted_scores ans qc)))
     \<and> (0 < TF qc \<longrightarrow>
          decided (thinking (counted_scores ans qc)) (feeling (counted_scores ans qc)))
     \<and> (0 < JP qc \<longrightarrow>
          decided (judging (counted_scores ans qc)) (perceiving (counted_scores ans qc)))
     \<and> (\<not> decided (extrovert (counted_scores ans qc)) (introvert (counted_scores ans qc))
          \<longrightarrow> l0 = CHR ''I'')
     \<and> (\<not> decided (sensory (counted_scores ans qc)) (intuitive (counted_scores ans qc))
          \<longrightarrow> l1 = CHR ''N'')
     \<and> (\<not> decided (thinking (counted_scores ans qc)) (feeling (counted_scores ans qc))
          \<longrightarrow> l2 = CHR ''F'')
     \<and> (\<not> decided (judging (counted_scores ans qc)) (perceiving (counted_scores ans qc))
          \<longrightarrow> l3 = CHR ''P'')"
proof -
  define l0 where "l0 = (if js_ge (extrovert (counted_scores ans qc))
      (introvert (counted_scores ans qc)) then CHR ''E'' else CHR ''I'')"
  define l1 where "l1 = (if js_ge (sensory (counted_scores ans qc))
      (intuitive (counted_scores ans qc)) then CHR ''S'' else CHR ''N'')"
  define l2 where "l2 = (if js_ge (thinking (counted_scores ans qc))
      (feeling (counted_scores ans qc)) then CHR ''T'' else CHR ''F'')"
  define l3 where "l3 = (if js_ge (judging (counted_scores ans qc))
      (perceiving (counted_scores ans qc)) then CHR ''J'' else CHR ''P'')"
  have pt: "primary_type (counted_scores ans qc) = [l0, l1, l2, l3]"
    by (simp add: primary_type_def l0_def l1_def l2_def l3_def)
  have u: "\<not> decided x y \<longrightarrow> (if js_ge x y then f else s) = s" for x y and f s :: char
    by (cases x; cases y; auto simp add: decided_def js_ge_def js_gt_def js_eq_def)
  have d: "0 < EI qc \<longrightarrow>
          decided (extrovert (counted_scores ans qc)) (introvert (counted_scores ans qc))"
      "0 < SN qc \<longrightarrow>
          decided (sensory (counted_scores ans qc)) (intuitive (counted_scores ans qc))"
      "0 < TF qc \<longrightarrow>
          decided (thinking (counted_scores ans qc)) (feeling (counted_scores ans qc))"
      "0 < JP qc \<longrightarrow>
          decided (judging (counted_scores ans qc)) (perceiving (counted_scores ans qc))"
    by (simp_all add: counted_scores_def decided_percentages)
  have "calculateResult ans qc =
       Inr \<lparr>scores = counted_scores ans qc,
            personalityType = primary_type (counted_scores ans qc),
            alternativeType1 = array_get (getAlternativeTypes (counted_scores ans qc)
               (primary_type (counted_scores ans qc))) 0,
            alternativeType2 = array_get (getAlternativeTypes (counted_scores ans qc)
               (primary_type (counted_scores ans qc))) 1\<rparr>"
    by (simp add: calculateResult_counted getAlternativeTypes_primary or_null_array_get
        spec_alternatives_nonempty)
  then have r: "calculateResult ans qc =
       Inr \<lparr>scores = counted_scores ans qc, personalityType = [l0, l1, l2, l3],
            alternativeType1 = array_get (getAlternativeTypes (counted_scores ans qc)
               [l0, l1, l2, l3]) 0,
            alternativeType2 = array_get (getAlternativeTypes (counted_scores ans qc)
               [l0, l1, l2, l3]) 1\<rparr>"
    unfolding pt .
  have c: "chosen_letter (extrovert (counted_scores ans qc)) (introvert (counted_scores ans qc))
          CHR ''E'' CHR ''I'' l0"
      "chosen_letter (sensory (counted_scores ans qc)) (intuitive (counted_scores ans qc))
          CHR ''S'' CHR ''N'' l1"
      "chosen_letter (thinking (counted_scores ans qc)) (feeling (counted_scores ans qc))
          CHR ''T'' CHR ''F'' l2"
      "chosen_letter (judging (counted_scores ans qc)) (perceiving (counted_scores ans qc))
          CHR ''J'' CHR ''P'' l3"
    unfolding l0_def l1_def l2_def l3_def by (rule chosen_letter_ge)+
  have n: "\<not> decided (extrovert (counted_scores ans qc)) (introvert (counted_scores ans qc))
          \<longrightarrow> l0 = CHR ''I''"
      "\<not> decided (sensory (counted_scores ans qc)) (intuitive (counted_scores ans qc))
          \<longrightarrow> l1 = CHR ''N''"
      "\<not> decided (thinking (counted_scores ans qc)) (feeling (counted_scores ans qc))
          \<longrightarrow> l2 = CHR ''F''"
      "\<not> decided (judging (counted_scores ans qc)) (perceiving (counted_scores ans qc))
          \<longrightarrow> l3 = CHR ''P''"
    unfolding l0_def l1_def l2_def l3_def by (rule u)+
  show ?thesis
    by (rule exI [of _ l0], rule exI [of _ l1], rule exI [of _ l2], rule exI [of _ l3])
      (intro conjI r c d n)
qed

theorem primary_type_takes_higher_letter_witness:
  "calculateResult
     (replicate 12 ''E'' @ replicate 8 ''I'' @ replicate 5 ''S'' @ replicate 15 ''N''
      @ replicate 10 ''T'' @ replicate 10 ''F'' @ replicate 20 ''P'')
     \<lparr>EI = 20, SN = 20, TF = 20, JP = 20\<rparr> =
   Inr \<lparr>scores = \<lparr>extrovert = Fin 60, introvert = Fin 40, sensory = Fin 25,
                   intuitive = Fin 75, thinking = Fin 50, feeling = Fin 50, judging = Fin 0,
                   perceiving = Fin 100\<rparr>,
        personalityType = ''ENTP'', alternativeType1 = Some ''ENFP'',
        alternativeType2 = None\<rparr>
   \<and> js_gt (Fin 60) (Fin 40) \<and> js_gt (Fin 75) (Fin 25) \<and> js_eq (Fin 50) (Fin 50)
   \<and> js_gt (Fin 100) (Fin 0)"
proof -
  have v: "percentage 12 20 = Fin 60" "percentage 8 20 = Fin 40" "percentage 5 20 = Fin 25"
      "percentage 15 20 = Fin 75" "percentage 10 20 = Fin 50" "percentage 20 20 = Fin 100"
    by (simp_all add: pct_eval)
  have s: "counted_scores
     (replicate 12 ''E'' @ replicate 8 ''I'' @ replicate 5 ''S'' @ replicate 15 ''N''
      @ replicate 10 ''T'' @ replicate 10 ''F'' @ replicate 20 ''P'')
     \<lparr>EI = 20, SN = 20, TF = 20, JP = 20\<rparr> =
     \<lparr>extrovert = Fin 60, introvert = Fin 40, sensory = Fin 25,
                   intuitive = Fin 75, thinking = Fin 50, feeling = Fin 50, judging = Fin 0,
                   perceiving = Fin 100\<rparr>"
    by (simp add: counted_scores_def count_list_replicate percentage_zero_tally v)
  have g: "getAlternativeTypes \<lparr>extrovert = Fin 60, introvert = Fin 40, sensory = Fin 25,
                   intuitive = Fin 75, thinking = Fin 50, feeling = Fin 50, judging = Fin 0,
                   perceiving = Fin 100\<rparr> ''ENTP'' = [''ENFP'']"
    by (simp add: alt_eval fl_eval)
  obtain l0 l1 l2 l3 where
    r: "calculateResult
     (replicate 12 ''E'' @ replicate 8 ''I'' @ replicate 5 ''S'' @ replicate 15 ''N''
      @ replicate 10 ''T'' @ replicate 10 ''F'' @ replicate 20 ''P'')
     \<lparr>EI = 20, SN = 20, TF = 20, JP = 20\<rparr> =
       Inr \<lparr>scores = \<lparr>extrovert = Fin 60, introvert = Fin 40, sensory = Fin 25,
                   intuitive = Fin 75, thinking = Fin 50, feeling = Fin 50, judging = Fin 0,
                   perceiving = Fin 100\<rparr>, personalityType = [l0, l1, l2, l3],
            alternativeType1 = array_get (getAlternativeTypes \<lparr>extrovert = Fin 60,
               introvert = Fin 40, sensory = Fin 25, intuitive = Fin 75, thinking = Fin 50,
               feeling = Fin 50, judging = Fin 0, perceiving = Fin 100\<rparr> [l0, l1, l2, l3]) 0,
            alternativeType2 = array_get (getAlternativeTypes \<lparr>extrovert = Fin 60,
               introvert = Fin 40, sensory = Fin 25, intuitive = Fin 75, thinking = Fin 50,
               feeling = Fin 50, judging = Fin 0, perceiving = Fin 100\<rparr> [l0, l1, l2, l3]) 1\<rparr>"
    and c: "chosen_letter (Fin 60) (Fin 40) CHR ''E'' CHR ''I'' l0"
      "chosen_letter (Fin 25) (Fin 75) CHR ''S'' CHR ''N'' l1"
      "chosen_letter (Fin 50) (Fin 50) CHR ''T'' CHR ''F'' l2"
      "chosen_letter (Fin 0) (Fin 100) CHR ''J'' CHR ''P'' l3"
    using primary_type_takes_higher_letter
      [of "replicate 12 ''E'' @ replicate 8 ''I'' @ replicate 5 ''S'' @ replicate 15 ''N''
      @ replicate 10 ''T'' @ replicate 10 ''F'' @ replicate 20 ''P''"
        "\<lparr>EI = 20, SN = 20, TF = 20, JP = 20\<rparr>"]
    unfolding s by auto
  from c have l: "l0 = CHR ''E''" "l1 = CHR ''N''" "l2 = CHR ''T''" "l3 = CHR ''P''"
    by (simp_all add: chosen_letter_def js_gt_def js_eq_def)
  show ?thesis
    unfolding r l by (simp add: g array_get_def js_gt_def js_eq_def)
qed

section \<open>The alternative types\<close>

text \<open>
  C4: the alternatives returned for the answers are obtained from their percentages and
  primary type by collecting, in the order EI, SN, TF, JP, the dimensions whose two
  percentages differ by strictly less than the threshold 20, keeping the first two, and
  emitting for each the primary type with that one letter replaced by its complement. So
  five E and five I of 10 give ISTJ and ENTJ beside ESTJ, and a dimension at 0 against 100
  is passed over.
\<close>

theorem alternatives_are_single_flips:
  "calculateResult ans qc =
     Inr \<lparr>scores = counted_scores ans qc,
          personalityType = primary_type (counted_scores ans qc),
          alternativeType1 = array_get
            (spec_alternatives 20 (counted_scores ans qc) (primary_type (counted_scores ans qc))) 0,
          alternativeType2 = array_get
            (spec_alternatives 20 (counted_scores ans qc) (primary_type (counted_scores ans qc))) 1\<rparr>
   \<and> length (spec_alternatives 20 (counted_scores ans qc) (primary_type (counted_scores ans qc)))
       \<le> 2
   \<and> closeThreshold = 20
   \<and> calculateResult (replicate 5 ''E'' @ replicate 5 ''I'')
        \<lparr>EI = 10, SN = 20, TF = 20, JP = 20\<rparr> =
      Inr \<lparr>scores = \<lparr>extrovert = Fin 50, introvert = Fin 50, sensory = Fin 0,
                      intuitive = Fin 0, thinking = Fin 0, feeling = Fin 0, judging = Fin 0,
                      perceiving = Fin 0\<rparr>,
           personalityType = ''ESTJ'', alternativeType1 = Some ''ISTJ'',
           alternativeType2 = Some ''ENTJ''\<rparr>
   \<and> calculateResult (replicate 20 ''N'' @ replicate 9 ''T'' @ replicate 11 ''F'')
        \<lparr>EI = 20, SN = 20, TF = 20, JP = 20\<rparr> =
      Inr \<lparr>scores = \<lparr>extrovert = Fin 0, introvert = Fin 0, sensory = Fin 0,
                      intuitive = Fin 100, thinking = Fin 45, feeling = Fin 55, judging = Fin 0,
                      perceiving = Fin 0\<rparr>,
           personalityType = ''ENFJ'', alternativeType1 = Some ''INFJ'',
           alternativeType2 = Some ''ENTJ''\<rparr>"
proof -
  have v: "percentage 20 20 = Fin 100" "percentage 9 20 = Fin 45" "percentage 11 20 = Fin 55"
    by (simp_all add: pct_eval)
  have s1: "counted_scores (replicate 5 ''E'' @ replicate 5 ''I'')
      \<lparr>EI = 10, SN = 20, TF = 20, JP = 20\<rparr> =
     \<lparr>extrovert = Fin 50, introvert = Fin 50, sensory = Fin 0, intuitive = Fin 0,
      thinking = Fin 0, feeling = Fin 0, judging = Fin 0, perceiving = Fin 0\<rparr>"
    by (simp add: counted_scores_def count_list_replicate percentage_zero_tally
        percentage_values)
  have r1: "calculateResult (replicate 5 ''E'' @ replicate 5 ''I'')
        \<lparr>EI = 10, SN = 20, TF = 20, JP = 20\<rparr> =
      Inr \<lparr>scores = \<lparr>extrovert = Fin 50, introvert = Fin 50, sensory = Fin 0,
                      intuitive = Fin 0, thinking = Fin 0, feeling = Fin 0, judging = Fin 0,
                      perceiving = Fin 0\<rparr>,
           personalityType = ''ESTJ'', alternativeType1 = Some ''ISTJ'',
           alternativeType2 = Some ''ENTJ''\<rparr>"
    unfolding calculateResult_counted s1 by (simp add: alt_eval fl_eval)
  have s2: "counted_scores (replicate 20 ''N'' @ replicate 9 ''T'' @ replicate 11 ''F'')
      \<lparr>EI = 20, SN = 20, TF = 20, JP = 20\<rparr> =
     \<lparr>extrovert = Fin 0, introvert = Fin 0, sensory = Fin 0, intuitive = Fin 100,
      thinking = Fin 45, feeling = Fin 55, judging = Fin 0, perceiving = Fin 0\<rparr>"
    by (simp add: counted_scores_def count_list_replicate percentage_zero_tally v)
  have r2: "calculateResult (replicate 20 ''N'' @ replicate 9 ''T'' @ replicate 11 ''F'')
        \<lparr>EI = 20, SN = 20, TF = 20, JP = 20\<rparr> =
      Inr \<lparr>scores = \<lparr>extrovert = Fin 0, introvert = Fin 0, sensory = Fin 0,
                      intuitive = Fin 100, thinking = Fin 45, feeling = Fin 55, judging = Fin 0,
                      perceiving = Fin 0\<rparr>,
           personalityType = ''ENFJ'', alternativeType1 = Some ''INFJ'',
           alternativeType2 = Some ''ENTJ''\<rparr>"
    unfolding calculateResult_counted s2 by (simp add: alt_eval fl_eval)
  have g: "calculateResult ans qc =
     Inr \<lparr>scores = counted_scores ans qc,
          personalityType = primary_type (counted_scores ans qc),
          alternativeType1 = array_get
            (spec_alternatives 20 (counted_scores ans qc) (primary_type (counted_scores ans qc))) 0,
          alternativeType2 = array_get
            (spec_alternatives 20 (counted_scores ans qc) (primary_type (counted_scores ans qc))) 1\<rparr>"
    using calculateResult_alternatives [of ans qc] by (simp add: closeThreshold_def)
  from g r1 r2 show ?thesis
    by (simp add: spec_alternatives_length closeThreshold_def)
qed

text \<open>
  C9: the alternative slots fill in order, and every alternative present is a string of
  four letters out of E, I, S, N, T, F, J, P that differs from the primary type in exactly
  one position.
\<close>

theorem alternative_slots_are_single_flips:
  "\<exists>r. calculateResult ans qc = Inr r
     \<and> (alternativeType2 r \<noteq> None \<longrightarrow> alternativeType1 r \<noteq> None)
     \<and> (\<forall>a. alternativeType1 r = Some a \<or> alternativeType2 r = Some a \<longrightarrow>
            length a = 4 \<and> set a \<subseteq> type_letters
          \<and> length (differing_positions a (personalityType r)) = 1)"
proof -
  define sc where "sc = counted_scores ans qc"
  define xs where "xs = spec_alternatives closeThreshold sc (primary_type sc)"
  have r: "calculateResult ans qc =
     Inr \<lparr>scores = sc, personalityType = primary_type sc,
          alternativeType1 = array_get xs 0, alternativeType2 = array_get xs 1\<rparr>"
    unfolding sc_def xs_def by (rule calculateResult_alternatives)
  have order: "array_get xs 1 \<noteq> None \<longrightarrow> array_get xs 0 \<noteq> None"
    by (simp add: array_get_def)
  have shape: "length a = 4 \<and> set a \<subseteq> type_letters
      \<and> length (differing_positions a (primary_type sc)) = 1"
    if "array_get xs 0 = Some a \<or> array_get xs 1 = Some a" for a
  proof -
    from that have "a \<in> set xs"
      by (auto simp add: array_get_def split: if_splits)
    then obtain k where "k < 4" "a = spec_flip (primary_type sc) k"
      unfolding xs_def using spec_alternatives_members by blast
    then show ?thesis
      using spec_flip_primary [of k sc] by simp
  qed
  from r order shape show ?thesis by simp
qed

theorem alternative_slots_are_single_flips_witness:
  "\<exists>r. calculateResult (replicate 5 ''E'' @ replicate 5 ''I'')
          \<lparr>EI = 10, SN = 20, TF = 20, JP = 20\<rparr> = Inr r
     \<and> personalityType r = ''ESTJ''
     \<and> alternativeType1 r = Some ''ISTJ'' \<and> alternativeType2 r = Some ''ENTJ''
     \<and> length (differing_positions ''ISTJ'' (personalityType r)) = 1
     \<and> length (differing_positions ''ENTJ'' (personalityType r)) = 1"
proof -
  have s: "counted_scores (replicate 5 ''E'' @ replicate 5 ''I'')
      \<lparr>EI = 10, SN = 20, TF = 20, JP = 20\<rparr> =
     \<lparr>extrovert = Fin 50, introvert = Fin 50, sensory = Fin 0, intuitive = Fin 0,
      thinking = Fin 0, feeling = Fin 0, judging = Fin 0, perceiving = Fin 0\<rparr>"
    by (simp add: counted_scores_def count_list_replicate percentage_zero_tally
        percentage_values)
  have r: "calculateResult (replicate 5 ''E'' @ replicate 5 ''I'')
      \<lparr>EI = 10, SN = 20, TF = 20, JP = 20\<rparr> =
     Inr \<lparr>scores = \<lparr>extrovert = Fin 50, introvert = Fin 50, sensory = Fin 0,
                     intuitive = Fin 0, thinking = Fin 0, feeling = Fin 0, judging = Fin 0,
                     perceiving = Fin 0\<rparr>,
          personalityType = ''ESTJ'', alternativeType1 = Some ''ISTJ'',
          alternativeType2 = Some ''ENTJ''\<rparr>"
    unfolding calculateResult_counted s by (simp add: alt_eval fl_eval)
  show ?thesis
    using alternative_slots_are_single_flips
      [of "replicate 5 ''E'' @ replicate 5 ''I''" "\<lparr>EI = 10, SN = 20, TF = 20, JP = 20\<rparr>"]
    unfolding r by simp
qed

section \<open>The two scoring versions\<close>

text \<open>
  C7: the version with fixed denominators and threshold 10 and the version that divides by
  \<open>questionCounts\<close> with threshold 20 differ: on five answers E with 20 questions per
  dimension the scores differ (50 against 25), and on five E and four I with 10 questions
  in EI the scores agree and the alternatives differ.
\<close>

theorem scoring_variants_diverge:
  "(\<exists>ans qc r1 r2. calculateResult_fixed ans qc = Inr r1 \<and> calculateResult ans qc = Inr r2
      \<and> scores r1 \<noteq> scores r2)
   \<and> (\<exists>ans qc r1 r2. calculateResult_fixed ans qc = Inr r1 \<and> calculateResult ans qc = Inr r2
      \<and> scores r1 = scores r2
      \<and> (alternativeType1 r1, alternativeType2 r1) \<noteq> (alternativeType1 r2, alternativeType2 r2))"
proof
  have f: "calculateResult_fixed (replicate 5 ''E'') \<lparr>EI = 20, SN = 20, TF = 20, JP = 20\<rparr> =
     Inr \<lparr>scores = \<lparr>extrovert = Fin 50, introvert = Fin 0, sensory = Fin 0,
                     intuitive = Fin 0, thinking = Fin 0, feeling = Fin 0, judging = Fin 0,
                     perceiving = Fin 0\<rparr>,
          personalityType = ''ESTJ'', alternativeType1 = Some ''ENTJ'',
          alternativeType2 = Some ''ESFJ''\<rparr>"
    by (simp add: calculateResult_fixed_counted count_list_replicate percentage_zero_tally
        percentage_values alt_fixed_eval fl_eval)
  have s: "counted_scores (replicate 5 ''E'') \<lparr>EI = 20, SN = 20, TF = 20, JP = 20\<rparr> =
     \<lparr>extrovert = Fin 25, introvert = Fin 0, sensory = Fin 0, intuitive = Fin 0,
      thinking = Fin 0, feeling = Fin 0, judging = Fin 0, perceiving = Fin 0\<rparr>"
    by (simp add: counted_scores_def count_list_replicate percentage_zero_tally
        percentage_values)
  have c: "calculateResult (replicate 5 ''E'') \<lparr>EI = 20, SN = 20, TF = 20, JP = 20\<rparr> =
     Inr \<lparr>scores = \<lparr>extrovert = Fin 25, introvert = Fin 0, sensory = Fin 0,
                     intuitive = Fin 0, thinking = Fin 0, feeling = Fin 0, judging = Fin 0,
                     perceiving = Fin 0\<rparr>,
          personalityType = ''ESTJ'', alternativeType1 = Some ''ENTJ'',
          alternativeType2 = Some ''ESFJ''\<rparr>"
    unfolding calculateResult_counted s by (simp add: alt_eval fl_eval)
  show "\<exists>ans qc r1 r2. calculateResult_fixed ans qc = Inr r1 \<and> calculateResult ans qc = Inr r2
      \<and> scores r1 \<noteq> scores r2"
    by (intro exI conjI, rule f, rule c) simp
next
  have f: "calculateResult_fixed (replicate 5 ''E'' @ replicate 4 ''I'')
      \<lparr>EI = 10, SN = 20, TF = 20, JP = 20\<rparr> =
     Inr \<lparr>scores = \<lparr>extrovert = Fin 50, introvert = Fin 40, sensory = Fin 0,
                     intuitive = Fin 0, thinking = Fin 0, feeling = Fin 0, judging = Fin 0,
                     perceiving = Fin 0\<rparr>,
          personalityType = ''ESTJ'', alternativeType1 = Some ''ENTJ'',
          alternativeType2 = Some ''ESFJ''\<rparr>"
    by (simp add: calculateResult_fixed_counted count_list_replicate percentage_zero_tally
        percentage_values alt_fixed_eval fl_eval)
  have s: "counted_scores (replicate 5 ''E'' @ replicate 4 ''I'')
      \<lparr>EI = 10, SN = 20, TF = 20, JP = 20\<rparr> =
     \<lparr>extrovert = Fin 50, introvert = Fin 40, sensory = Fin 0, intuitive = Fin 0,
      thinking = Fin 0, feeling = Fin 0, judging = Fin 0, perceiving = Fin 0\<rparr>"
    by (simp add: counted_scores_def count_list_replicate percentage_zero_tally
        percentage_values)
  have c: "calculateResult (replicate 5 ''E'' @ replicate 4 ''I'')
      \<lparr>EI = 10, SN = 20, TF = 20, JP = 20\<rparr> =
     Inr \<lparr>scores = \<lparr>extrovert = Fin 50, introvert = Fin 40, sensory = Fin 0,
                     intuitive = Fin 0, thinking = Fin 0, feeling = Fin 0, judging = Fin 0,
                     perceiving = Fin 0\<rparr>,
          personalityType = ''ESTJ'', alternativeType1 = Some ''ISTJ'',
          alternativeType2 = Some ''ENTJ''\<rparr>"
    unfolding calculateResult_counted s by (simp add: alt_eval fl_eval)
  show "\<exists>ans qc r1 r2. calculateResult_fixed ans qc = Inr r1 \<and> calculateResult ans qc = Inr r2
      \<and> scores r1 = scores r2
      \<and> (alternativeType1 r1, alternativeType2 r1) \<noteq> (alternativeType1 r2, alternativeType2 r2)"
    by (intro exI conjI, rule f, rule c) simp_all
qed

section \<open>Saving a result\<close>

text \<open>
  C10: \<open>createNewResult\<close> stores a document only when each of the four complementary
  pairs consists of two numbers between 0 and 100 that sum to 100 within the tolerance 0.01
  (exactly 100 when both are integers), and stores nothing when an error is raised. The
  \<open>pre('save')\<close> hook throws exactly when some pair fails its test
  \<open>Math.abs(score1 + score2 - 100) > 0.01\<close>, which holds when the sum is off by
  \<open>0.01 + 2 ^ -40\<close> or more and fails when it is off by \<open>0.01 - 2 ^ -40\<close> or less.
  \<open>calculateResult\<close> does return pairs that are rejected: for the single answer E the pair
  is 5 and 0, and with zero denominators the scores are Infinity and NaN, which the schema's
  range validators reject.
\<close>

theorem createNewResult_persists_only_balanced:
  "(createNewResult odm st uid aid rd = (Inr saved, st') \<longrightarrow>
        st' = updateMany_inactive uid st @ [saved]
      \<and> sums_to_100 (extrovert (scores saved)) (introvert (scores saved))
      \<and> sums_to_100 (sensory (scores saved)) (intuitive (scores saved))
      \<and> sums_to_100 (thinking (scores saved)) (feeling (scores saved))
      \<and> sums_to_100 (judging (scores saved)) (perceiving (scores saved)))
   \<and> (createNewResult odm st uid aid rd = (Inl e, st') \<longrightarrow> st' = updateMany_inactive uid st)
   \<and> pre_save doc =
     (if off_balance (extrovert (scores doc)) (introvert (scores doc))
       \<or> off_balance (sensory (scores doc)) (intuitive (scores doc))
       \<or> off_balance (thinking (scores doc)) (feeling (scores doc))
       \<or> off_balance (judging (scores doc)) (perceiving (scores doc))
      then Inl (Error ''Complementary scores must add up to 100'')
      else Inr ())
   \<and> (0 \<le> x \<and> x \<le> 100 \<and> 0 \<le> y \<and> y \<le> 100
        \<and> 1 / 100 + 1 / 2 ^ 40 \<le> \<bar>x + y - 100\<bar> \<longrightarrow> off_balance (Fin x) (Fin y))
   \<and> (0 \<le> x \<and> x \<le> 100 \<and> 0 \<le> y \<and> y \<le> 100
        \<and> \<bar>x + y - 100\<bar> \<le> 1 / 100 - 1 / 2 ^ 40 \<longrightarrow> \<not> off_balance (Fin x) (Fin y))
   \<and> calculateResult [''E''] \<lparr>EI = 20, SN = 18, TF = 16, JP = 16\<rparr> =
       Inr \<lparr>scores = \<lparr>extrovert = Fin 5, introvert = Fin 0, sensory = Fin 0,
                       intuitive = Fin 0, thinking = Fin 0, feeling = Fin 0, judging = Fin 0,
                       perceiving = Fin 0\<rparr>,
            personalityType = ''ESTJ'', alternativeType1 = Some ''ISTJ'',
            alternativeType2 = Some ''ENTJ''\<rparr>
   \<and> createNewResult Inr st uid aid
        \<lparr>scores = \<lparr>extrovert = Fin 5, introvert = Fin 0, sensory = Fin 0,
                   intuitive = Fin 0, thinking = Fin 0, feeling = Fin 0, judging = Fin 0,
                   perceiving = Fin 0\<rparr>,
         personalityType = ''ESTJ'', alternativeType1 = Some ''ISTJ'',
         alternativeType2 = Some ''ENTJ'', answers = [''E''], timeTaken = None\<rparr>
      = (Inl (Error ''Complementary scores must add up to 100''), updateMany_inactive uid st)
   \<and> calculateResult [''E''] \<lparr>EI = 0, SN = 0, TF = 0, JP = 0\<rparr> =
       Inr \<lparr>scores = \<lparr>extrovert = PInf, introvert = NaN, sensory = NaN,
                       intuitive = NaN, thinking = NaN, feeling = NaN, judging = NaN,
                       perceiving = NaN\<rparr>,
            personalityType = ''INFP'', alternativeType1 = None, alternativeType2 = None\<rparr>
   \<and> createNewResult Inr st uid aid
        \<lparr>scores = \<lparr>extrovert = PInf, introvert = NaN, sensory = NaN,
                   intuitive = NaN, thinking = NaN, feeling = NaN, judging = NaN,
                   perceiving = NaN\<rparr>,
         personalityType = ''INFP'', alternativeType1 = None, alternativeType2 = None,
         answers = [''E''], timeTaken = None\<rparr>
      = (Inl (ValidationError [''scores.extrovert'', ''scores.introvert'', ''scores.sensory'',
           ''scores.intuitive'', ''scores.thinking'', ''scores.feeling'', ''scores.judging'',
           ''scores.perceiving'']), updateMany_inactive uid st)"
proof (intro conjI impI)
  assume c: "createNewResult odm st uid aid rd = (Inr saved, st')"
  then obtain doc0 where cr: "create odm (updateMany_inactive uid st) doc0 = (Inr saved, st')"
    by (simp add: createNewResult_def Let_def)
  from create_saved [OF cr] have v: "validate saved = Inr ()"
    and p: "pre_save saved = Inr ()" and s: "st' = updateMany_inactive uid st @ [saved]"
    by simp_all
  show "st' = updateMany_inactive uid st @ [saved]" by (rule s)
  from p have o: "\<not> off_balance (extrovert (scores saved)) (introvert (scores saved))"
    "\<not> off_balance (sensory (scores saved)) (intuitive (scores saved))"
    "\<not> off_balance (thinking (scores saved)) (feeling (scores saved))"
    "\<not> off_balance (judging (scores saved)) (perceiving (scores saved))"
    by (simp_all add: pre_save_cases split: if_splits)
  show "sums_to_100 (extrovert (scores saved)) (introvert (scores saved))"
    using validate_scores(1,2) [OF v] o(1) by (rule accepted_pair_sums_to_100)
  show "sums_to_100 (sensory (scores saved)) (intuitive (scores saved))"
    using validate_scores(3,4) [OF v] o(2) by (rule accepted_pair_sums_to_100)
  show "sums_to_100 (thinking (scores saved)) (feeling (scores saved))"
    using validate_scores(5,6) [OF v] o(3) by (rule accepted_pair_sums_to_100)
  show "sums_to_100 (judging (scores saved)) (perceiving (scores saved))"
    using validate_scores(7,8) [OF v] o(4) by (rule accepted_pair_sums_to_100)
next
  assume "createNewResult odm st uid aid rd = (Inl e, st')"
  then obtain doc0 where "create odm (updateMany_inactive uid st) doc0 = (Inl e, st')"
    by (simp add: createNewResult_def Let_def)
  then show "st' = updateMany_inactive uid st"
    by (rule create_rejected)
next
  show "pre_save doc =
     (if off_balance (extrovert (scores doc)) (introvert (scores doc))
       \<or> off_balance (sensory (scores doc)) (intuitive (scores doc))
       \<or> off_balance (thinking (scores doc)) (feeling (scores doc))
       \<or> off_balance (judging (scores doc)) (perceiving (scores doc))
      then Inl (Error ''Complementary scores must add up to 100'')
      else Inr ())"
    by (rule pre_save_cases)
next
  assume "0 \<le> x \<and> x \<le> 100 \<and> 0 \<le> y \<and> y \<le> 100
        \<and> 1 / 100 + 1 / 2 ^ 40 \<le> \<bar>x + y - 100\<bar>"
  then show "off_balance (Fin x) (Fin y)"
    by (intro off_balance_outside) simp_all
next
  assume "0 \<le> x \<and> x \<le> 100 \<and> 0 \<le> y \<and> y \<le> 100
        \<and> \<bar>x + y - 100\<bar> \<le> 1 / 100 - 1 / 2 ^ 40"
  then show "\<not> off_balance (Fin x) (Fin y)"
    by (intro off_balance_inside) simp_all
next
  have p: "percentage (Suc 0) 20 = Fin 5"
    by (simp add: pct_eval)
  have s: "counted_scores [''E''] \<lparr>EI = 20, SN = 18, TF = 16, JP = 16\<rparr> =
     \<lparr>extrovert = Fin 5, introvert = Fin 0, sensory = Fin 0, intuitive = Fin 0,
      thinking = Fin 0, feeling = Fin 0, judging = Fin 0, perceiving = Fin 0\<rparr>"
    by (simp add: counted_scores_def percentage_zero_tally p)
  show "calculateResult [''E''] \<lparr>EI = 20, SN = 18, TF = 16, JP = 16\<rparr> =
       Inr \<lparr>scores = \<lparr>extrovert = Fin 5, introvert = Fin 0, sensory = Fin 0,
                       intuitive = Fin 0, thinking = Fin 0, feeling = Fin 0, judging = Fin 0,
                       perceiving = Fin 0\<rparr>,
            personalityType = ''ESTJ'', alternativeType1 = Some ''ISTJ'',
            alternativeType2 = Some ''ENTJ''\<rparr>"
    unfolding calculateResult_counted s by (simp add: alt_eval fl_eval)
next
  have o: "off_balance (Fin 5) (Fin 0)"
    using off_balance_integers [of 5 0] by simp
  show "createNewResult Inr st uid aid
        \<lparr>scores = \<lparr>extrovert = Fin 5, introvert = Fin 0, sensory = Fin 0,
                   intuitive = Fin 0, thinking = Fin 0, feeling = Fin 0, judging = Fin 0,
                   perceiving = Fin 0\<rparr>,
         personalityType = ''ESTJ'', alternativeType1 = Some ''ISTJ'',
         alternativeType2 = Some ''ENTJ'', answers = [''E''], timeTaken = None\<rparr>
      = (Inl (Error ''Complementary scores must add up to 100''), updateMany_inactive uid st)"
    by (simp add: o createNewResult_def create_def validate_def failed_paths_def in_range_def
        js_ge_def matches_type_pattern_def pre_save_cases)
next
  have s: "counted_scores [''E''] \<lparr>EI = 0, SN = 0, TF = 0, JP = 0\<rparr> =
     \<lparr>extrovert = PInf, introvert = NaN, sensory = NaN, intuitive = NaN,
      thinking = NaN, feeling = NaN, judging = NaN, perceiving = NaN\<rparr>"
    by (simp add: counted_scores_def percentage_zero_denominator)
  show "calculateResult [''E''] \<lparr>EI = 0, SN = 0, TF = 0, JP = 0\<rparr> =
       Inr \<lparr>scores = \<lparr>extrovert = PInf, introvert = NaN, sensory = NaN,
                       intuitive = NaN, thinking = NaN, feeling = NaN, judging = NaN,
                       perceiving = NaN\<rparr>,
            personalityType = ''INFP'', alternativeType1 = None, alternativeType2 = None\<rparr>"
    unfolding calculateResult_counted s by (simp add: alt_eval)
next
  show "createNewResult Inr st uid aid
        \<lparr>scores = \<lparr>extrovert = PInf, introvert = NaN, sensory = NaN,
                   intuitive = NaN, thinking = NaN, feeling = NaN, judging = NaN,
                   perceiving = NaN\<rparr>,
         personalityType = ''INFP'', alternativeType1 = None, alternativeType2 = None,
         answers = [''E''], timeTaken = None\<rparr>
      = (Inl (ValidationError [''scores.extrovert'', ''scores.introvert'', ''scores.sensory'',
           ''scores.intuitive'', ''scores.thinking'', ''scores.feeling'', ''scores.judging'',
           ''scores.perceiving'']), updateMany_inactive uid st)"
    by (simp add: createNewResult_def create_def validate_def failed_paths_def in_range_def
        js_ge_def matches_type_pattern_def)
qed

theorem createNewResult_persists_only_balanced_witness:
  "createNewResult Inr [] 7 1
     \<lparr>scores = \<lparr>extrovert = Fin 60, introvert = Fin 40, sensory = Fin 50, intuitive = Fin 50,
                thinking = Fin 50, feeling = Fin 50, judging = Fin 50, perceiving = Fin 50\<rparr>,
      personalityType = ''ESTJ'', alternativeType1 = Some ''ENTJ'',
      alternativeType2 = Some ''ESFJ'', answers = [''E''], timeTaken = None\<rparr>
   = (Inr \<lparr>scores = \<lparr>extrovert = Fin 60, introvert = Fin 40, sensory = Fin 50,
                      intuitive = Fin 50, thinking = Fin 50, feeling = Fin 50,
                      judging = Fin 50, perceiving = Fin 50\<rparr>,
           personalityType = ''ESTJ'', alternativeType1 = Some ''ENTJ'',
           alternativeType2 = Some ''ESFJ'', answers = [''E''], timeTaken = None,
           userId = 7, assessmentId = 1, isActive = True\<rparr>,
      [\<lparr>scores = \<lparr>extrovert = Fin 60, introvert = Fin 40, sensory = Fin 50,
                  intuitive = Fin 50, thinking = Fin 50, feeling = Fin 50,
                  judging = Fin 50, perceiving = Fin 50\<rparr>,
        personalityType = ''ESTJ'', alternativeType1 = Some ''ENTJ'',
        alternativeType2 = Some ''ESFJ'', answers = [''E''], timeTaken = None,
        userId = 7, assessmentId = 1, isActive = True\<rparr>])
   \<and> sums_to_100 (Fin 60) (Fin 40)
   \<and> off_balance (Fin 50) (Fin (50 + 1 / 64))
   \<and> \<not> off_balance (Fin 50) (Fin (50 + 1 / 128))"
proof -
  let ?sc = "\<lparr>extrovert = Fin 60, introvert = Fin 40, sensory = Fin 50, intuitive = Fin 50,
      thinking = Fin 50, feeling = Fin 50, judging = Fin 50, perceiving = Fin 50\<rparr>"
  let ?rd = "\<lparr>scores = ?sc, personalityType = ''ESTJ'', alternativeType1 = Some ''ENTJ'',
      alternativeType2 = Some ''ESFJ'', answers = [''E''], timeTaken = None\<rparr>"
  let ?doc = "\<lparr>scores = ?sc, personalityType = ''ESTJ'', alternativeType1 = Some ''ENTJ'',
      alternativeType2 = Some ''ESFJ'', answers = [''E''], timeTaken = None,
      userId = 7, assessmentId = 1, isActive = True\<rparr>"
  have n: "\<not> off_balance (Fin 60) (Fin 40)" "\<not> off_balance (Fin 50) (Fin 50)"
    using off_balance_integers [of 60 40] off_balance_integers [of 50 50] by simp_all
  have c: "createNewResult Inr [] 7 1 ?rd = (Inr ?doc, [?doc])"
    by (simp add: n createNewResult_def create_def validate_def failed_paths_def in_range_def
        js_ge_def matches_type_pattern_def pre_save_cases updateMany_inactive_def)
  note t = createNewResult_persists_only_balanced
  have s: "sums_to_100 (Fin 60) (Fin 40)"
    using t [where odm = Inr and st = "[]" and uid = 7 and aid = 1 and rd = ?rd
        and saved = ?doc and st' = "[?doc]"] c
    by simp
  have o: "off_balance (Fin 50) (Fin (50 + 1 / 64))"
    using t [where x = 50 and y = "50 + 1 / 64"] by simp
  have i: "\<not> off_balance (Fin 50) (Fin (50 + 1 / 128))"
    using t [where x = 50 and y = "50 + 1 / 128"] by simp
  from c s o i show ?thesis by simp
qed

end
